theory Spec2Isabelle
  imports Main "HOL-Library.Char_ord" "HOL-Library.List_Lexorder" "HOL-Library.Sublist"
begin

section \<open>Data model\<close>

text \<open>
  A resolved absolute path is the list of its components; the root is \<open>[]\<close>.
  Time stamps the code keeps as ISO strings stay strings and are compared as Python
  compares strings, lexicographically by code point.
\<close>

type_synonym path = "string list"

datatype error =
    FileNotFoundError | FileExistsError | IsADirectoryError | NotADirectoryError
  | ShutilError | JSONDecodeError | KeyError | TypeError | ValueError | AttributeError
  | RuntimeError

text \<open>JSON values: the free-form dictionaries of the code (metadata, details, context).\<close>

datatype jval =
    JNull | JBool bool | JNum int | JStr string | JArr "jval list"
  | JObj "(string \<times> jval) list"

text \<open>
  One migration dictionary of \<open>migration_tracker.py\<close>. A key the code reads with
  \<open>.get\<close> and that may be absent is an option.
\<close>

record migration =
  timestamp :: string
  transaction_id :: "string option"
  operation :: string
  source_path :: path
  dest_path :: "path option"
  source_hash :: "string option"
  dest_hash :: "string option"
  file_size :: nat
  file_modified :: "string option"
  file_permissions :: "nat option"
  reason :: string
  metadata :: jval
  status :: string
  error :: "string option"
  completed_at :: "string option"
  rollback_time :: "string option"
  rollback_error :: "error option"
  archive_path :: "path option"

text \<open>
  The transaction dictionary. In memory its operations are references to the migration
  dictionaries (addresses in the heap below); in a JSON file they are copies.
\<close>

record 'op transaction =
  tx_id :: string
  description :: string
  start_time :: string
  operations :: "'op list"
  tx_status :: string
  end_time :: "string option"
  failed_operations :: "nat option"
  tx_rollback_time :: "string option"

record rollback_point =
  rp_id :: string
  rp_description :: string
  created_at :: string
  project_state :: jval
  rp_status :: string

datatype rollback_error =
    RollbackPointNotFound string
  | ReversalFailed path error
  | VerificationIssue string path
  | RollbackFailed error

record rollback_record =
  rollback_id :: string
  rr_timestamp :: string
  success :: bool
  errors :: "rollback_error list"
  migrations_reversed :: nat

record session =
  s_id :: string
  project_path :: string
  started_at :: string
  s_status :: string
  phase :: string
  checkpoints :: "jval list"
  completed_operations :: "jval list"
  pending_operations :: "jval list"
  s_errors :: "jval list"
  stats :: "(string \<times> int) list"
  resumed_at :: "string option"

record lock_data =
  lock_session_id :: string
  lock_timestamp :: string
  pid :: nat

text \<open>
  What a file holds: raw bytes, or one of the JSON documents the program writes.
  \<open>json.dump\<close> followed by \<open>json.load\<close> is the identity on these documents.
\<close>

datatype fcontent =
    Raw string
  | MigrationsJson "migration list"
  | TransactionJson "migration transaction"
  | RollbackPointJson rollback_point
  | RollbackLogJson "rollback_record list"
  | SessionJson session
  | LockJson lock_data

datatype node = File (content: fcontent) (mtime: string) (mode: nat) | Dir

type_synonym filesystem = "path \<rightharpoonup> node"

text \<open>
  Library functions the code calls and the model does not interpret: the hashes, the
  size of a file in bytes, and the clock's renderings (\<open>isoformat\<close>,
  \<open>fromisoformat\<close>, \<open>strftime('%Y%m%d_%H%M%S')\<close>). An instant is an integer
  number of microseconds. A file's modification time is held as the text
  \<open>datetime.fromtimestamp(st_mtime).isoformat()\<close> that \<open>_get_file_metadata\<close> reads;
  \<open>mtime_text\<close> is that text after \<open>os.utime\<close> was given the \<open>timestamp()\<close> of an
  instant, a float of seconds, which can cost the last digit of the microseconds.
\<close>

record lib =
  sha256_hex :: "fcontent \<Rightarrow> string"
  md5_hex :: "string \<Rightarrow> string"
  byte_size :: "fcontent \<Rightarrow> nat"
  isoformat :: "int \<Rightarrow> string"
  fromisoformat :: "string \<Rightarrow> int option"
  strftime :: "int \<Rightarrow> string"
  mtime_text :: "int \<Rightarrow> string"
  json_dumps :: "jval \<Rightarrow> string"

datatype level = DEBUG | INFO | WARNING | ERROR

datatype arg = ArgStr string | ArgPath path | ArgOptPath "path option" | ArgNat nat | ArgErr error

text \<open>A line of the process logger: level, the message's fixed text, the values put in it.\<close>

datatype log_line = Log level string "arg list"

section \<open>The file system\<close>

definition is_dir :: "filesystem \<Rightarrow> path \<Rightarrow> bool" where
  "is_dir fs p = (p = [] \<or> fs p = Some Dir)"

definition path_exists :: "filesystem \<Rightarrow> path \<Rightarrow> bool" where
  "path_exists fs p = (p = [] \<or> fs p \<noteq> None)"

definition parent :: "path \<Rightarrow> path" where
  "parent p = butlast p"

definition basename :: "path \<Rightarrow> string" where
  "basename p = (if p = [] then [] else last p)"

definition default_mode :: nat where
  "default_mode = 33188"

text \<open>
  A path is held as the list of its components, none of which contains a separator.
  \<open>directory / name\<close> with a name that comes from the caller is a string that the
  operating system resolves when the path is used: \<open>split_on\<close> cuts the name at the
  separators, and \<open>resolve\<close> walks the components from the directory: an empty
  component and \<open>.\<close> stay, \<open>..\<close> goes up, any other component goes down, and the walk
  fails as soon as it would go through something that is not a directory (the error
  that \<open>open\<close> raises then; \<open>Path.exists\<close> answers \<open>False\<close>). A name that starts with
  a separator is absolute and replaces the directory. Symbolic links are not modelled.
\<close>

fun split_on :: "char \<Rightarrow> string \<Rightarrow> string list" where
  "split_on c [] = [[]]"
| "split_on c (x # xs) =
     (if x = c then [] # split_on c xs
      else (case split_on c xs of
              h # t \<Rightarrow> (x # h) # t
            | [] \<Rightarrow> [[x]]))"

fun resolve :: "filesystem \<Rightarrow> path \<Rightarrow> string list \<Rightarrow> error + path" where
  "resolve fs cur [] = Inr cur"
| "resolve fs cur (c # cs) =
     (if \<not> path_exists fs cur then Inl FileNotFoundError
      else if \<not> is_dir fs cur then Inl NotADirectoryError
      else if c = [] \<or> c = ''.'' then resolve fs cur cs
      else if c = ''..'' then resolve fs (butlast cur) cs
      else resolve fs (cur @ [c]) cs)"

definition joinpath :: "filesystem \<Rightarrow> path \<Rightarrow> string \<Rightarrow> error + path" where
  "joinpath fs dir name =
     (if name \<noteq> [] \<and> hd name = CHR ''/''
      then resolve fs [] (split_on (CHR ''/'') name)
      else resolve fs dir (split_on (CHR ''/'') name))"

text \<open>
  \<open>open(p, 'w')\<close>: the file exists and is empty from this moment; it fails on a
  directory and under a missing parent.
\<close>

definition open_w :: "filesystem \<Rightarrow> path \<Rightarrow> string \<Rightarrow> error + filesystem" where
  "open_w fs p t =
     (if is_dir fs p then Inl IsADirectoryError
      else if \<not> path_exists fs (parent p) then Inl FileNotFoundError
      else if \<not> is_dir fs (parent p) then Inl NotADirectoryError
      else Inr (fs(p \<mapsto> File (Raw []) t
                  (case fs p of Some (File c t0 m) \<Rightarrow> m | _ \<Rightarrow> default_mode))))"

definition put_content :: "filesystem \<Rightarrow> path \<Rightarrow> fcontent \<Rightarrow> filesystem" where
  "put_content fs p c =
     (case fs p of Some (File c0 t m) \<Rightarrow> fs(p \<mapsto> File c t m) | _ \<Rightarrow> fs)"

text \<open>\<open>with open(p, 'w') as f: json.dump(doc, f)\<close>, start to end.\<close>

definition write_file :: "filesystem \<Rightarrow> path \<Rightarrow> fcontent \<Rightarrow> string \<Rightarrow> error + filesystem" where
  "write_file fs p c t =
     (case open_w fs p t of Inl e \<Rightarrow> Inl e | Inr fs1 \<Rightarrow> Inr (put_content fs1 p c))"

text \<open>\<open>Path.replace\<close> (\<open>os.replace\<close>) of a regular file.\<close>

definition replace_file :: "filesystem \<Rightarrow> path \<Rightarrow> path \<Rightarrow> error + filesystem" where
  "replace_file fs src dst =
     (case fs src of
        None \<Rightarrow> Inl FileNotFoundError
      | Some Dir \<Rightarrow> Inl IsADirectoryError
      | Some (File c t m) \<Rightarrow>
          if is_dir fs dst then Inl IsADirectoryError
          else if \<not> path_exists fs (parent dst) then Inl FileNotFoundError
          else if \<not> is_dir fs (parent dst) then Inl NotADirectoryError
          else Inr ((fs(src := None))(dst \<mapsto> File c t m)))"

text \<open>\<open>Path.mkdir(exist_ok=True)\<close>.\<close>

definition mkdir_exist_ok :: "filesystem \<Rightarrow> path \<Rightarrow> error + filesystem" where
  "mkdir_exist_ok fs p =
     (if is_dir fs p then Inr fs
      else if path_exists fs p then Inl FileExistsError
      else if \<not> path_exists fs (parent p) then Inl FileNotFoundError
      else if \<not> is_dir fs (parent p) then Inl NotADirectoryError
      else Inr (fs(p \<mapsto> Dir)))"

text \<open>
  \<open>Path.mkdir(parents=True, exist_ok=True)\<close>, walking down from the root: every
  missing component becomes a directory; a regular file on the way is an error.
\<close>

fun mkdirs :: "filesystem \<Rightarrow> path \<Rightarrow> string list \<Rightarrow> error + filesystem" where
  "mkdirs fs pre [] = Inr fs"
| "mkdirs fs pre (c # cs) =
     (case fs (pre @ [c]) of
        Some (File c0 t m) \<Rightarrow> Inl (if cs = [] then FileExistsError else NotADirectoryError)
      | _ \<Rightarrow> mkdirs (fs(pre @ [c] \<mapsto> Dir)) (pre @ [c]) cs)"

definition mkdir_parents :: "filesystem \<Rightarrow> path \<Rightarrow> error + filesystem" where
  "mkdir_parents fs p = mkdirs fs [] p"

text \<open>Moving a directory takes everything below it along.\<close>

definition move_tree :: "filesystem \<Rightarrow> path \<Rightarrow> path \<Rightarrow> filesystem" where
  "move_tree fs src dst =
     (\<lambda>p. if prefix dst p then fs (src @ drop (length dst) p)
          else if prefix src p then None else fs p)"

text \<open>
  \<open>shutil.move(src, dst)\<close>: into \<open>dst\<close> when that is a directory (an error when the
  name is taken there), onto \<open>dst\<close> otherwise, replacing a regular file.
\<close>

definition shutil_move :: "filesystem \<Rightarrow> path \<Rightarrow> path \<Rightarrow> error + filesystem" where
  "shutil_move fs src dst =
     (let real_dst = (if is_dir fs dst then dst @ [basename src] else dst) in
      if is_dir fs dst \<and> src = dst then Inr fs
      else if is_dir fs dst \<and> path_exists fs real_dst then Inl ShutilError
      else case fs src of
        None \<Rightarrow> Inl FileNotFoundError
      | Some (File c t m) \<Rightarrow>
          if \<not> path_exists fs (parent real_dst) then Inl FileNotFoundError
          else if \<not> is_dir fs (parent real_dst) then Inl NotADirectoryError
          else Inr ((fs(src := None))(real_dst \<mapsto> File c t m))
      | Some Dir \<Rightarrow>
          if path_exists fs real_dst then Inl FileExistsError
          else if prefix src real_dst then Inl ShutilError
          else (case mkdir_parents fs (parent real_dst) of
                  Inl e \<Rightarrow> Inl e
                | Inr fs1 \<Rightarrow> Inr (move_tree fs1 src real_dst)))"

definition unlink :: "filesystem \<Rightarrow> path \<Rightarrow> error + filesystem" where
  "unlink fs p =
     (case fs p of
        None \<Rightarrow> Inl FileNotFoundError
      | Some Dir \<Rightarrow> Inl IsADirectoryError
      | Some (File c t m) \<Rightarrow> Inr (fs(p := None)))"

text \<open>\<open>shutil.copy2\<close>: content, modification time and mode.\<close>

definition copy2 :: "filesystem \<Rightarrow> path \<Rightarrow> path \<Rightarrow> error + filesystem" where
  "copy2 fs src dst =
     (let real_dst = (if is_dir fs dst then dst @ [basename src] else dst) in
      case fs src of
        None \<Rightarrow> Inl FileNotFoundError
      | Some Dir \<Rightarrow> Inl IsADirectoryError
      | Some (File c t m) \<Rightarrow>
          if is_dir fs real_dst then Inl IsADirectoryError
          else if \<not> path_exists fs (parent real_dst) then Inl FileNotFoundError
          else if \<not> is_dir fs (parent real_dst) then Inl NotADirectoryError
          else Inr (fs(real_dst \<mapsto> File c t m)))"

text \<open>
  \<open>os.chmod\<close>: the twelve permission bits of the mode are replaced, the bits above
  them (the file type that \<open>st_mode\<close> carries) stay.
\<close>

definition chmod :: "filesystem \<Rightarrow> path \<Rightarrow> nat \<Rightarrow> error + filesystem" where
  "chmod fs p m =
     (case fs p of
        None \<Rightarrow> (if p = [] then Inr fs else Inl FileNotFoundError)
      | Some Dir \<Rightarrow> Inr fs
      | Some (File c t m0) \<Rightarrow> Inr (fs(p \<mapsto> File c t ((m0 div 4096) * 4096 + m mod 4096))))"

definition utime :: "filesystem \<Rightarrow> path \<Rightarrow> string \<Rightarrow> error + filesystem" where
  "utime fs p t =
     (case fs p of
        None \<Rightarrow> (if p = [] then Inr fs else Inl FileNotFoundError)
      | Some Dir \<Rightarrow> Inr fs
      | Some (File c t0 m) \<Rightarrow> Inr (fs(p \<mapsto> File c t m)))"

section \<open>Program state\<close>

text \<open>
  The migration dictionaries live in a heap: the master log and the active transaction
  hold the same objects, so completing a record shows in both. \<open>migrations\<close> and
  \<open>current_transaction\<close> are the tracker's attributes, \<open>rollback_history\<close> the
  rollback manager's; \<open>logs\<close> collects what the module loggers are given.
\<close>

record world =
  fs :: filesystem
  heap :: "nat \<Rightarrow> migration"
  next_addr :: nat
  logs :: "log_line list"
  work_dir :: path
  migrations :: "nat list"
  current_transaction :: "nat transaction option"
  rb_work_dir :: path
  rollback_history :: "rollback_record list"

definition logger :: "level \<Rightarrow> string \<Rightarrow> arg list \<Rightarrow> world \<Rightarrow> world" where
  "logger lv msg args w = w\<lparr>logs := logs w @ [Log lv msg args]\<rparr>"

text \<open>Python's truth value of an optional string, an optional number.\<close>

definition truthy_str :: "string option \<Rightarrow> bool" where
  "truthy_str x = (case x of None \<Rightarrow> False | Some s \<Rightarrow> s \<noteq> [])"

definition truthy_nat :: "nat option \<Rightarrow> bool" where
  "truthy_nat x = (case x of None \<Rightarrow> False | Some n \<Rightarrow> n \<noteq> 0)"

text \<open>What \<open>json.dump\<close> writes for a transaction: the operations by value.\<close>

definition dump_transaction :: "world \<Rightarrow> nat transaction \<Rightarrow> migration transaction" where
  "dump_transaction w tx =
     \<lparr>tx_id = tx_id tx, description = description tx, start_time = start_time tx,
      operations = map (heap w) (operations tx), tx_status = tx_status tx,
      end_time = end_time tx, failed_operations = failed_operations tx,
      tx_rollback_time = tx_rollback_time tx\<rparr>"

definition migration_log_path :: "world \<Rightarrow> path" where
  "migration_log_path w = work_dir w @ [''migration_log.json'']"

definition transaction_log_path :: "world \<Rightarrow> path" where
  "transaction_log_path w = work_dir w @ [''transaction_log.json'']"

section \<open>MigrationTracker\<close>

definition calculate_file_hash :: "lib \<Rightarrow> filesystem \<Rightarrow> path \<Rightarrow> error + string" where
  "calculate_file_hash L f p =
     (if is_dir f p then Inl IsADirectoryError
      else case f p of
        Some (File c t m) \<Rightarrow> Inr (sha256_hex L c)
      | _ \<Rightarrow> Inl FileNotFoundError)"

text \<open>
  \<open>_get_file_metadata\<close>: size, modification time and mode, or the empty dictionary
  when \<open>stat\<close> fails. Its caller reaches it for regular files only (hashing a directory
  has raised before).
\<close>

definition get_file_metadata :: "lib \<Rightarrow> filesystem \<Rightarrow> path \<Rightarrow> (nat \<times> string \<times> nat) option" where
  "get_file_metadata L f p =
     (case f p of Some (File c t m) \<Rightarrow> Some (byte_size L c, t, m) | _ \<Rightarrow> None)"

text \<open>
  \<open>_save_migrations\<close>: the log is written to \<open>migration_log.tmp\<close>, which then replaces
  \<open>migration_log.json\<close>; a failure is logged and raised again.
\<close>

definition save_migrations :: "lib \<Rightarrow> int \<Rightarrow> world \<Rightarrow> (error + unit) \<times> world" where
  "save_migrations L now w =
     (let temp_path = work_dir w @ [''migration_log.tmp''] in
      case write_file (fs w) temp_path (MigrationsJson (map (heap w) (migrations w)))
             (isoformat L now) of
        Inl e \<Rightarrow> (Inl e, logger ERROR ''Failed to save migrations'' [ArgErr e] w)
      | Inr fs1 \<Rightarrow>
          (case replace_file fs1 temp_path (migration_log_path w) of
             Inl e \<Rightarrow> (Inl e, logger ERROR ''Failed to save migrations'' [ArgErr e] (w\<lparr>fs := fs1\<rparr>))
           | Inr fs2 \<Rightarrow> (Inr (), w\<lparr>fs := fs2\<rparr>)))"

text \<open>
  \<open>_save_transaction\<close>: the active transaction is written straight onto
  \<open>transaction_log.json\<close>; a failure is logged and not raised.
\<close>

definition save_transaction :: "lib \<Rightarrow> int \<Rightarrow> world \<Rightarrow> world" where
  "save_transaction L now w =
     (case current_transaction w of
        None \<Rightarrow> w
      | Some tx \<Rightarrow>
          (case write_file (fs w) (transaction_log_path w)
                  (TransactionJson (dump_transaction w tx)) (isoformat L now) of
             Inl e \<Rightarrow> logger ERROR ''Failed to save transaction'' [ArgErr e] w
           | Inr fs1 \<Rightarrow> w\<lparr>fs := fs1\<rparr>))"

definition archive_transaction :: "lib \<Rightarrow> int \<Rightarrow> world \<Rightarrow> (error + unit) \<times> world" where
  "archive_transaction L now w =
     (case current_transaction w of
        None \<Rightarrow> (Inr (), w)
      | Some tx \<Rightarrow>
          (let archive_dir = work_dir w @ [''transactions''] in
           case mkdir_exist_ok (fs w) archive_dir of
             Inl e \<Rightarrow> (Inl e, w)
           | Inr fs1 \<Rightarrow>
               (case joinpath fs1 archive_dir (tx_id tx @ ''.json'') of
                  Inl e \<Rightarrow> (Inl e, w\<lparr>fs := fs1\<rparr>)
                | Inr archive_file \<Rightarrow>
                    (case write_file fs1 archive_file
                            (TransactionJson (dump_transaction w tx)) (isoformat L now) of
                       Inl e \<Rightarrow> (Inl e, w\<lparr>fs := fs1\<rparr>)
                     | Inr fs2 \<Rightarrow> (Inr (), w\<lparr>fs := fs2\<rparr>)))))"

definition start_transaction :: "lib \<Rightarrow> int \<Rightarrow> string \<Rightarrow> world \<Rightarrow> string \<times> world" where
  "start_transaction L now descr w =
     (let txid = strftime L now @ ''_'' @ take 8 (md5_hex L descr);
          tx = \<lparr>tx_id = txid, description = descr, start_time = isoformat L now,
                operations = [], tx_status = ''in_progress'', end_time = None,
                failed_operations = None, tx_rollback_time = None\<rparr>;
          w1 = save_transaction L now (w\<lparr>current_transaction := Some tx\<rparr>)
      in (txid,
          logger INFO ''Started transaction'' [ArgStr txid, ArgStr descr] w1))"

text \<open>
  \<open>track_migration\<close>: the record is allocated, appended to the active transaction (if
  any) and to the master log, and both are saved. Every exception is logged and raised
  again; what was changed before it stays changed.
\<close>

definition track_migration ::
  "lib \<Rightarrow> int \<Rightarrow> path \<Rightarrow> path option \<Rightarrow> string \<Rightarrow> string \<Rightarrow> jval option \<Rightarrow> world
     \<Rightarrow> (error + nat) \<times> world" where
  "track_migration L now src dst opn rsn md w =
     (case (if path_exists (fs w) src
            then map_sum id Some (calculate_file_hash L (fs w) src) else Inr None) of
        Inl e \<Rightarrow> (Inl e, logger ERROR ''Failed to track migration'' [ArgErr e] w)
      | Inr src_hash \<Rightarrow>
          (let file_metadata =
                 (if path_exists (fs w) src then get_file_metadata L (fs w) src else None);
               migration_record =
                 \<lparr>timestamp = isoformat L now,
                  transaction_id = map_option tx_id (current_transaction w),
                  operation = opn, source_path = src, dest_path = dst,
                  source_hash = src_hash, dest_hash = None,
                  file_size = (case file_metadata of Some (sz, t, m) \<Rightarrow> sz | None \<Rightarrow> 0),
                  file_modified = map_option (\<lambda>(sz, t, m). t) file_metadata,
                  file_permissions = map_option (\<lambda>(sz, t, m). m) file_metadata,
                  reason = rsn,
                  metadata = (case md of None \<Rightarrow> JObj [] | Some j \<Rightarrow> j),
                  status = ''pending'', error = None, completed_at = None,
                  rollback_time = None, rollback_error = None, archive_path = None\<rparr>;
               a = next_addr w;
               w1 = w\<lparr>heap := (heap w)(a := migration_record), next_addr := Suc a\<rparr>;
               w2 = (case current_transaction w1 of
                       None \<Rightarrow> w1
                     | Some tx \<Rightarrow>
                         save_transaction L now
                           (w1\<lparr>current_transaction :=
                                  Some (tx\<lparr>operations := operations tx @ [a]\<rparr>)\<rparr>));
               w3 = w2\<lparr>migrations := migrations w2 @ [a]\<rparr>
           in case save_migrations L now w3 of
                (Inl e, w4) \<Rightarrow> (Inl e, logger ERROR ''Failed to track migration'' [ArgErr e] w4)
              | (Inr u, w4) \<Rightarrow>
                  (Inr a, logger INFO ''Tracked migration''
                            [ArgStr opn, ArgPath src, ArgOptPath dst] w4)))"

text \<open>
  The destination check inside \<open>complete_migration\<close> (its lines 118 to 130), for the
  record at address \<open>a\<close>. The hash of the destination is taken only when the call
  reports success, the record has a destination and that path exists; then, for move,
  copy and archive with a known source hash, a different hash turns the record to
  failed. Hashing may raise (the destination is a directory).
\<close>

definition verify_destination ::
  "lib \<Rightarrow> nat \<Rightarrow> bool \<Rightarrow> world \<Rightarrow> (error \<times> world) + world" where
  "verify_destination L a succ w =
     (case (if succ then dest_path (heap w a) else None) of
        None \<Rightarrow> Inr w
      | Some d \<Rightarrow>
          if path_exists (fs w) d then
            (case calculate_file_hash L (fs w) d of
               Inl e \<Rightarrow> Inl (e, w)
             | Inr h \<Rightarrow>
                 (let m3 = (heap w a)\<lparr>dest_hash := Some h\<rparr> in
                  if truthy_str (source_hash m3)
                     \<and> operation m3 \<in> set [''move'', ''copy'', ''archive'']
                     \<and> source_hash m3 \<noteq> dest_hash m3
                  then Inr (logger ERROR ''Hash mismatch after migration''
                              [ArgPath (source_path m3)]
                              (w\<lparr>heap := (heap w)
                                     (a := m3\<lparr>status := ''failed'',
                                              error := Some ''Hash verification failed''\<rparr>)\<rparr>))
                  else Inr (w\<lparr>heap := (heap w)(a := m3)\<rparr>)))
          else Inr w)"

text \<open>
  \<open>complete_migration\<close> on the record at address \<open>a\<close>: the terminal status and the
  completion time, the caller's error text, the destination check, then both logs are
  saved.
\<close>

definition complete_migration ::
  "lib \<Rightarrow> int \<Rightarrow> nat \<Rightarrow> bool \<Rightarrow> string option \<Rightarrow> world \<Rightarrow> (error + unit) \<times> world" where
  "complete_migration L now a succ err w =
     (let m1 = (heap w a)\<lparr>status := (if succ then ''success'' else ''failed''),
                          completed_at := Some (isoformat L now)\<rparr>;
          m2 = (if truthy_str err then m1\<lparr>error := err\<rparr> else m1);
          w2 = w\<lparr>heap := (heap w)(a := m2)\<rparr>
      in case verify_destination L a succ w2 of
           Inl (e, w3) \<Rightarrow> (Inl e, w3)
         | Inr w3 \<Rightarrow>
             (case save_migrations L now w3 of
                (Inl e, w4) \<Rightarrow> (Inl e, w4)
              | (Inr u, w4) \<Rightarrow>
                  (let w5 = save_transaction L now w4 in
                   (Inr (), logger INFO ''Migration''
                              [ArgStr (if succ then ''[OK]'' else ''[FAIL]''),
                               ArgStr (operation (heap w5 a)), ArgPath (source_path (heap w5 a)),
                               ArgStr (status (heap w5 a))] w5))))"

text \<open>
  \<open>commit_transaction\<close>: committed, or partial_failure when a member record is not
  success; saved, archived, and the active slot cleared.
\<close>

definition commit_transaction :: "lib \<Rightarrow> int \<Rightarrow> world \<Rightarrow> (error + unit) \<times> world" where
  "commit_transaction L now w =
     (case current_transaction w of
        None \<Rightarrow> (Inr (), logger WARNING ''No active transaction to commit'' [] w)
      | Some tx \<Rightarrow>
          (let tx1 = tx\<lparr>end_time := Some (isoformat L now), tx_status := ''committed''\<rparr>;
               failed_ops = filter (\<lambda>a. status (heap w a) \<noteq> ''success'') (operations tx1);
               tx2 = (if failed_ops \<noteq> []
                      then tx1\<lparr>tx_status := ''partial_failure'',
                               failed_operations := Some (length failed_ops)\<rparr>
                      else tx1);
               w1 = save_transaction L now (w\<lparr>current_transaction := Some tx2\<rparr>)
           in case archive_transaction L now w1 of
                (Inl e, w2) \<Rightarrow> (Inl e, w2)
              | (Inr u, w2) \<Rightarrow>
                  (Inr (), (logger INFO ''Committed transaction''
                              [ArgStr (tx_id tx2), ArgStr (tx_status tx2)] w2)
                           \<lparr>current_transaction := None\<rparr>)))"

text \<open>
  \<open>_reverse_operation\<close>: a move or an archive is undone by moving the destination
  file back, when it exists, and restoring the saved mode; a copy by deleting the copy.
\<close>

definition reverse_operation :: "migration \<Rightarrow> world \<Rightarrow> (error + unit) \<times> world" where
  "reverse_operation m w =
     (if operation m \<in> set [''move'', ''archive''] then
        (case dest_path m of
           None \<Rightarrow> (Inl TypeError, w)
         | Some source \<Rightarrow>
             (let dest = source_path m in
              if path_exists (fs w) source then
                (case mkdir_parents (fs w) (parent dest) of
                   Inl e \<Rightarrow> (Inl e, w)
                 | Inr fs1 \<Rightarrow>
                     (case shutil_move fs1 source dest of
                        Inl e \<Rightarrow> (Inl e, w\<lparr>fs := fs1\<rparr>)
                      | Inr fs2 \<Rightarrow>
                          (let w2 = logger INFO ''Reversed move'' [ArgPath source, ArgPath dest]
                                      (w\<lparr>fs := fs2\<rparr>) in
                           if truthy_nat (file_permissions m) then
                             (case file_permissions m of
                                None \<Rightarrow> (Inr (), w2)
                              | Some md \<Rightarrow>
                                  (case chmod fs2 dest md of
                                     Inl e \<Rightarrow>
                                       (Inr (), logger WARNING ''Could not restore permissions''
                                                  [ArgErr e] w2)
                                   | Inr fs3 \<Rightarrow> (Inr (), w2\<lparr>fs := fs3\<rparr>)))
                           else (Inr (), w2))))
              else (Inr (), w)))
      else if operation m = ''delete'' then
        (Inr (), logger WARNING ''Cannot reverse delete operation for'' [ArgPath (source_path m)] w)
      else if operation m = ''copy'' then
        (case dest_path m of
           None \<Rightarrow> (Inl TypeError, w)
         | Some dest \<Rightarrow>
             if path_exists (fs w) dest then
               (case unlink (fs w) dest of
                  Inl e \<Rightarrow> (Inl e, w)
                | Inr fs1 \<Rightarrow>
                    (Inr (), logger INFO ''Reversed copy: removed'' [ArgPath dest] (w\<lparr>fs := fs1\<rparr>)))
             else (Inr (), w))
      else (Inr (), w))"

text \<open>
  \<open>_load_transaction\<close>: what \<open>json.load\<close> gives for the archive file of the
  identifier, or \<open>None\<close> when nothing exists at that path. An archived transaction has
  its operations as fresh objects. Of any other JSON document the program writes, what
  the caller can see is kept: for a list whether it has elements, for a dictionary the
  value at \<open>id\<close> when it has one.
\<close>

fun alloc_all :: "migration list \<Rightarrow> world \<Rightarrow> nat list \<times> world" where
  "alloc_all [] w = ([], w)"
| "alloc_all (m # ms) w =
     (let a = next_addr w;
          r = alloc_all ms (w\<lparr>heap := (heap w)(a := m), next_addr := Suc a\<rparr>)
      in (a # fst r, snd r))"

datatype loaded =
    LoadedTransaction "nat transaction"
  | LoadedList bool
  | LoadedDict "string option"

definition load_transaction ::
  "string \<Rightarrow> world \<Rightarrow> (error + loaded option) \<times> world" where
  "load_transaction tid w =
     (case joinpath (fs w) (work_dir w @ [''transactions'']) (tid @ ''.json'') of
        Inl e \<Rightarrow> (Inr None, w)
      | Inr archive_file \<Rightarrow>
          if path_exists (fs w) archive_file then
            (case fs w archive_file of
               Some (File (TransactionJson t) tm md) \<Rightarrow>
                 (let r = alloc_all (operations t) w in
                  (Inr (Some (LoadedTransaction
                          \<lparr>tx_id = tx_id t, description = description t,
                           start_time = start_time t, operations = fst r,
                           tx_status = tx_status t, end_time = end_time t,
                           failed_operations = failed_operations t,
                           tx_rollback_time = tx_rollback_time t\<rparr>)), snd r))
             | Some (File (MigrationsJson ms) tm md) \<Rightarrow>
                 (Inr (Some (LoadedList (ms \<noteq> []))), w)
             | Some (File (RollbackLogJson rs) tm md) \<Rightarrow>
                 (Inr (Some (LoadedList (rs \<noteq> []))), w)
             | Some (File (RollbackPointJson point) tm md) \<Rightarrow>
                 (Inr (Some (LoadedDict (Some (rp_id point)))), w)
             | Some (File (SessionJson ss) tm md) \<Rightarrow>
                 (Inr (Some (LoadedDict (Some (s_id ss)))), w)
             | Some (File (LockJson lk) tm md) \<Rightarrow> (Inr (Some (LoadedDict None)), w)
             | Some (File (Raw s) tm md) \<Rightarrow> (Inl JSONDecodeError, w)
             | Some Dir \<Rightarrow> (Inl IsADirectoryError, w)
             | None \<Rightarrow> (Inl IsADirectoryError, w))
          else (Inr None, w))"

text \<open>The loop of \<open>rollback_transaction\<close> over the operations, already reversed.\<close>

fun rollback_ops :: "lib \<Rightarrow> int \<Rightarrow> nat list \<Rightarrow> world \<Rightarrow> world" where
  "rollback_ops L now [] w = w"
| "rollback_ops L now (a # as) w =
     (if status (heap w a) = ''success'' then
        (case reverse_operation (heap w a) w of
           (Inr u, w1) \<Rightarrow>
             rollback_ops L now as
               (w1\<lparr>heap := (heap w1)
                       (a := (heap w1 a)\<lparr>status := ''rolled_back'',
                                         rollback_time := Some (isoformat L now)\<rparr>)\<rparr>)
         | (Inl e, w1) \<Rightarrow>
             rollback_ops L now as
               (logger ERROR ''Failed to rollback operation'' [ArgErr e]
                  (w1\<lparr>heap := (heap w1)(a := (heap w1 a)\<lparr>rollback_error := Some e\<rparr>)\<rparr>)))
      else rollback_ops L now as w)"

text \<open>
  \<open>rollback_transaction\<close>: an identifier that is \<open>None\<close> or empty selects the active
  transaction. Marking the transaction rolled back changes the active transaction only
  when that is the one rolled back; a loaded one is a copy. A loaded document that is
  not a transaction: an empty list counts as no transaction and a non-empty one cannot
  be indexed by a string; a dictionary with an \<open>id\<close> (a rollback point, a session) is
  announced in the log before the missing \<open>operations\<close> raises \<open>KeyError\<close>; a
  dictionary without \<open>id\<close> (a lock) raises it at once.
\<close>

definition rollback_transaction ::
  "lib \<Rightarrow> int \<Rightarrow> string option \<Rightarrow> world \<Rightarrow> (error + bool) \<times> world" where
  "rollback_transaction L now txid w =
     (case (if truthy_str txid
            then (case txid of
                    Some tid \<Rightarrow> load_transaction tid w
                  | None \<Rightarrow> (Inr (map_option LoadedTransaction (current_transaction w)), w))
            else (Inr (map_option LoadedTransaction (current_transaction w)), w)) of
        (Inl e, w1) \<Rightarrow> (Inl e, w1)
      | (Inr None, w1) \<Rightarrow> (Inr False, logger ERROR ''No transaction to rollback'' [] w1)
      | (Inr (Some (LoadedList nonempty)), w1) \<Rightarrow>
          if nonempty then (Inl TypeError, w1)
          else (Inr False, logger ERROR ''No transaction to rollback'' [] w1)
      | (Inr (Some (LoadedDict None)), w1) \<Rightarrow> (Inl KeyError, w1)
      | (Inr (Some (LoadedDict (Some i))), w1) \<Rightarrow>
          (Inl KeyError, logger INFO ''Rolling back transaction'' [ArgStr i] w1)
      | (Inr (Some (LoadedTransaction tx)), w1) \<Rightarrow>
          (let w2 = logger INFO ''Rolling back transaction'' [ArgStr (tx_id tx)] w1;
               w3 = rollback_ops L now (rev (operations tx)) w2;
               tx1 = tx\<lparr>tx_status := ''rolled_back'',
                        tx_rollback_time := Some (isoformat L now)\<rparr>;
               w4 = (if truthy_str txid then w3
                     else w3\<lparr>current_transaction := Some tx1\<rparr>);
               w5 = save_transaction L now w4
           in case save_migrations L now w5 of
                (Inl e, w6) \<Rightarrow> (Inl e, w6)
              | (Inr u, w6) \<Rightarrow>
                  (Inr True, logger INFO ''Completed rollback of transaction''
                               [ArgStr (tx_id tx)] w6)))"

text \<open>
  The states the file system goes through while \<open>_save_transaction\<close> and
  \<open>_save_migrations\<close> run, one per step: the file opened for writing (empty), its
  content written, and for the migration log the rename. \<open>save_transaction\<close> and
  \<open>save_migrations\<close> above end in the last of them.
\<close>

definition save_transaction_states :: "lib \<Rightarrow> int \<Rightarrow> world \<Rightarrow> filesystem list" where
  "save_transaction_states L now w =
     (case current_transaction w of
        None \<Rightarrow> []
      | Some tx \<Rightarrow>
          (case open_w (fs w) (transaction_log_path w) (isoformat L now) of
             Inl e \<Rightarrow> []
           | Inr fs1 \<Rightarrow>
               [fs1, put_content fs1 (transaction_log_path w)
                       (TransactionJson (dump_transaction w tx))]))"

definition save_migrations_states :: "lib \<Rightarrow> int \<Rightarrow> world \<Rightarrow> filesystem list" where
  "save_migrations_states L now w =
     (let temp_path = work_dir w @ [''migration_log.tmp''] in
      case open_w (fs w) temp_path (isoformat L now) of
        Inl e \<Rightarrow> []
      | Inr fs1 \<Rightarrow>
          (let fs2 = put_content fs1 temp_path (MigrationsJson (map (heap w) (migrations w))) in
           case replace_file fs2 temp_path (migration_log_path w) of
             Inl e \<Rightarrow> [fs1, fs2]
           | Inr fs3 \<Rightarrow> [fs1, fs2, fs3]))"

text \<open>
  \<open>verify_migration_integrity\<close>: for every success record, the destination is there
  and has the recorded hash; for a move, the source is gone. Hashing a directory raises.
\<close>

datatype issue =
    MissingDestination migration path
  | HashMismatch migration path string string
  | SourceNotRemoved migration path

fun verify_records :: "lib \<Rightarrow> filesystem \<Rightarrow> migration list \<Rightarrow> error + issue list" where
  "verify_records L f [] = Inr []"
| "verify_records L f (m # ms) =
     (if status m \<noteq> ''success'' then verify_records L f ms
      else
        (case (case dest_path m of
                 None \<Rightarrow> Inr []
               | Some d \<Rightarrow>
                   (case dest_hash m of
                      None \<Rightarrow> Inr []
                    | Some dh \<Rightarrow>
                        if dh = [] then Inr []
                        else if \<not> path_exists f d then Inr [MissingDestination m d]
                        else (case calculate_file_hash L f d of
                                Inl e \<Rightarrow> Inl e
                              | Inr h \<Rightarrow>
                                  if h \<noteq> dh then Inr [HashMismatch m d dh h] else Inr []))) of
           Inl e \<Rightarrow> Inl e
         | Inr found \<Rightarrow>
             (let found2 =
                    (if operation m = ''move'' \<and> path_exists f (source_path m)
                     then found @ [SourceNotRemoved m (source_path m)] else found)
              in case verify_records L f ms of
                   Inl e \<Rightarrow> Inl e
                 | Inr rest \<Rightarrow> Inr (found2 @ rest))))"

definition verify_migration_integrity :: "lib \<Rightarrow> world \<Rightarrow> error + issue list" where
  "verify_migration_integrity L w = verify_records L (fs w) (map (heap w) (migrations w))"

section \<open>RollbackManager\<close>

definition rollback_file :: "world \<Rightarrow> string \<Rightarrow> error + path" where
  "rollback_file w rid = joinpath (fs w) (rb_work_dir w) (''rollback_'' @ rid @ ''.json'')"

definition rollback_log_path :: "world \<Rightarrow> path" where
  "rollback_log_path w = rb_work_dir w @ [''rollback_log.json'']"

definition capture_project_state :: "lib \<Rightarrow> int \<Rightarrow> jval" where
  "capture_project_state L now =
     JObj [(''timestamp'', JStr (isoformat L now)), (''files'', JObj []),
           (''directories'', JArr [])]"

definition create_rollback_point ::
  "lib \<Rightarrow> int \<Rightarrow> string \<Rightarrow> world \<Rightarrow> (error + string) \<times> world" where
  "create_rollback_point L now descr w =
     (let rid = strftime L now @ ''_rollback'';
          point = \<lparr>rp_id = rid, rp_description = descr, created_at = isoformat L now,
                   project_state = capture_project_state L now, rp_status = ''active''\<rparr>
      in case rollback_file w rid of
           Inl e \<Rightarrow> (Inl e, w)
         | Inr p \<Rightarrow>
             (case write_file (fs w) p (RollbackPointJson point) (isoformat L now) of
                Inl e \<Rightarrow> (Inl e, w)
              | Inr fs1 \<Rightarrow> (Inr rid, logger INFO ''Created rollback point'' [ArgStr rid]
                                       (w\<lparr>fs := fs1\<rparr>))))"

text \<open>
  \<open>with open(p, 'r') as f: json.load(f)\<close> gives the document the file holds; bytes
  that are none of the program's documents do not parse.
\<close>

definition read_json :: "filesystem \<Rightarrow> path \<Rightarrow> error + fcontent" where
  "read_json f p =
     (if is_dir f p then Inl IsADirectoryError
      else case f p of
        Some (File (Raw s) t m) \<Rightarrow> Inl JSONDecodeError
      | Some (File c t m) \<Rightarrow> Inr c
      | _ \<Rightarrow> Inl FileNotFoundError)"

definition load_rollback_point :: "world \<Rightarrow> string \<Rightarrow> error + fcontent" where
  "load_rollback_point w rid =
     (case rollback_file w rid of
        Inl e \<Rightarrow> Inl e
      | Inr p \<Rightarrow> read_json (fs w) p)"

text \<open>
  \<open>rollback_point['created_at']\<close> on a loaded document: only a rollback point has the
  key; a list cannot be indexed by a string.
\<close>

definition point_created_at :: "fcontent \<Rightarrow> error + string" where
  "point_created_at c =
     (case c of
        RollbackPointJson point \<Rightarrow> Inr (created_at point)
      | MigrationsJson ms \<Rightarrow> Inl TypeError
      | RollbackLogJson rs \<Rightarrow> Inl TypeError
      | _ \<Rightarrow> Inl KeyError)"

text \<open>
  \<open>_get_migrations_after\<close>: the records of the master log, in log order, whose time
  stamp is greater than the given one as a string.
\<close>

definition get_migrations_after :: "world \<Rightarrow> string \<Rightarrow> nat list" where
  "get_migrations_after w ts = filter (\<lambda>a. ts < timestamp (heap w a)) (migrations w)"

text \<open>
  \<open>_restore_file_metadata\<close>: the modification time, then the mode; the first failure
  is logged as a warning and ends the attempt.
\<close>

definition restore_file_metadata :: "lib \<Rightarrow> path \<Rightarrow> migration \<Rightarrow> world \<Rightarrow> world" where
  "restore_file_metadata L p m w =
     (case (case file_modified m of
              None \<Rightarrow> Inr (fs w)
            | Some s \<Rightarrow>
                if s = [] then Inr (fs w)
                else (case fromisoformat L s of
                        None \<Rightarrow> Inl ValueError
                      | Some t \<Rightarrow> utime (fs w) p (mtime_text L t))) of
        Inl e \<Rightarrow> logger WARNING ''Could not fully restore metadata for'' [ArgPath p, ArgErr e] w
      | Inr fs1 \<Rightarrow>
          (case file_permissions m of
             None \<Rightarrow> w\<lparr>fs := fs1\<rparr>
           | Some md \<Rightarrow>
               if md = 0 then w\<lparr>fs := fs1\<rparr>
               else (case chmod fs1 p md of
                       Inl e \<Rightarrow> logger WARNING ''Could not fully restore metadata for''
                                  [ArgPath p, ArgErr e] (w\<lparr>fs := fs1\<rparr>)
                     | Inr fs2 \<Rightarrow> w\<lparr>fs := fs2\<rparr>)))"

text \<open>
  The migration dictionary as a JSON value, for the metadata of a rollback record: the
  twelve keys every record has, then the keys it was given later, as far as it has them.
  The code puts the dictionary itself in the metadata; nothing changes a reversed
  record between its reversal and the end of \<open>rollback_to_point\<close>, where the value
  is written out. The message of an exception is kept as the name of its class.
\<close>

definition path_str :: "path \<Rightarrow> string" where
  "path_str p = (if p = [] then ''/'' else concat (map (\<lambda>c. ''/'' @ c) p))"

definition opt_json :: "('a \<Rightarrow> jval) \<Rightarrow> 'a option \<Rightarrow> jval" where
  "opt_json f x = (case x of None \<Rightarrow> JNull | Some v \<Rightarrow> f v)"

definition opt_key :: "string \<Rightarrow> ('a \<Rightarrow> jval) \<Rightarrow> 'a option \<Rightarrow> (string \<times> jval) list" where
  "opt_key k f x = (case x of None \<Rightarrow> [] | Some v \<Rightarrow> [(k, f v)])"

definition error_name :: "error \<Rightarrow> string" where
  "error_name e =
     (case e of
        FileNotFoundError \<Rightarrow> ''FileNotFoundError''
      | FileExistsError \<Rightarrow> ''FileExistsError''
      | IsADirectoryError \<Rightarrow> ''IsADirectoryError''
      | NotADirectoryError \<Rightarrow> ''NotADirectoryError''
      | ShutilError \<Rightarrow> ''shutil.Error''
      | JSONDecodeError \<Rightarrow> ''JSONDecodeError''
      | KeyError \<Rightarrow> ''KeyError''
      | TypeError \<Rightarrow> ''TypeError''
      | ValueError \<Rightarrow> ''ValueError''
      | AttributeError \<Rightarrow> ''AttributeError''
      | RuntimeError \<Rightarrow> ''RuntimeError'')"

definition migration_json :: "migration \<Rightarrow> jval" where
  "migration_json m =
     JObj ([(''timestamp'', JStr (timestamp m)),
            (''transaction_id'', opt_json JStr (transaction_id m)),
            (''operation'', JStr (operation m)),
            (''source_path'', JStr (path_str (source_path m))),
            (''dest_path'', opt_json (\<lambda>p. JStr (path_str p)) (dest_path m)),
            (''source_hash'', opt_json JStr (source_hash m)),
            (''file_size'', JNum (int (file_size m))),
            (''file_modified'', opt_json JStr (file_modified m)),
            (''file_permissions'', opt_json (\<lambda>n. JNum (int n)) (file_permissions m)),
            (''reason'', JStr (reason m)),
            (''metadata'', metadata m),
            (''status'', JStr (status m))]
           @ opt_key ''completed_at'' JStr (completed_at m)
           @ opt_key ''error'' JStr (error m)
           @ opt_key ''dest_hash'' JStr (dest_hash m)
           @ opt_key ''rollback_time'' JStr (rollback_time m)
           @ opt_key ''rollback_error'' (\<lambda>e. JStr (error_name e)) (rollback_error m)
           @ opt_key ''archive_path'' (\<lambda>p. JStr (path_str p)) (archive_path m))"

text \<open>\<open>Path(s)\<close> for an absolute path string.\<close>

definition split_path :: "string \<Rightarrow> path" where
  "split_path s = filter (\<lambda>c. c \<noteq> []) (split_on (CHR ''/'') s)"

text \<open>
  \<open>_reverse_consolidation\<close>: every original file recorded in the metadata with a
  content is written again.
\<close>

fun restore_originals :: "lib \<Rightarrow> int \<Rightarrow> jval list \<Rightarrow> world \<Rightarrow> (error + unit) \<times> world" where
  "restore_originals L now [] w = (Inr (), w)"
| "restore_originals L now (original # rest) w =
     (case original of
        JObj kvs \<Rightarrow>
          (case map_of kvs ''path'' of
             None \<Rightarrow> (Inl KeyError, w)
           | Some (JStr s) \<Rightarrow>
               (case map_of kvs ''content'' of
                  Some (JStr body) \<Rightarrow>
                    if body = [] then restore_originals L now rest w
                    else (case mkdir_parents (fs w) (parent (split_path s)) of
                            Inl e \<Rightarrow> (Inl e, w)
                          | Inr fs1 \<Rightarrow>
                              (case write_file fs1 (split_path s) (Raw body) (isoformat L now) of
                                 Inl e \<Rightarrow> (Inl e, w\<lparr>fs := fs1\<rparr>)
                               | Inr fs2 \<Rightarrow>
                                   restore_originals L now rest
                                     (logger INFO ''Restored original file''
                                        [ArgPath (split_path s)] (w\<lparr>fs := fs2\<rparr>))))
                | Some JNull \<Rightarrow> restore_originals L now rest w
                | None \<Rightarrow> restore_originals L now rest w
                | Some v \<Rightarrow>
                    if v = JBool False \<or> v = JNum 0 \<or> v = JArr [] \<or> v = JObj []
                    then restore_originals L now rest w
                    else (case mkdir_parents (fs w) (parent (split_path s)) of
                            Inl e \<Rightarrow> (Inl e, w)
                          | Inr fs1 \<Rightarrow>
                              (case open_w fs1 (split_path s) (isoformat L now) of
                                 Inl e \<Rightarrow> (Inl e, w\<lparr>fs := fs1\<rparr>)
                               | Inr fs2 \<Rightarrow> (Inl TypeError, w\<lparr>fs := fs2\<rparr>))))
           | Some v \<Rightarrow> (Inl TypeError, w))
      | v \<Rightarrow> (Inl TypeError, w))"

definition reverse_consolidation :: "lib \<Rightarrow> int \<Rightarrow> migration \<Rightarrow> world \<Rightarrow> (error + unit) \<times> world" where
  "reverse_consolidation L now m w =
     (case dest_path m of
        None \<Rightarrow> (Inl TypeError, w)
      | Some consolidated_file \<Rightarrow>
          (case metadata m of
             JObj kvs \<Rightarrow>
               (case map_of kvs ''original_files'' of
                  None \<Rightarrow> (Inr (), w)
                | Some (JArr original_files) \<Rightarrow> restore_originals L now original_files w
                | Some (JStr s) \<Rightarrow> if s = [] then (Inr (), w) else (Inl TypeError, w)
                | Some (JObj kvs2) \<Rightarrow> if kvs2 = [] then (Inr (), w) else (Inl TypeError, w)
                | Some v \<Rightarrow> (Inl TypeError, w))
           | v \<Rightarrow> (Inl AttributeError, w)))"

text \<open>
  \<open>_reverse_migration\<close> for the record at address \<open>a\<close>. A move or an archive whose
  destination is missing raises; the move back is tracked as a new \<open>rollback_move\<close>
  record. Operations other than move, archive, delete and consolidate are left alone.
\<close>

definition reverse_migration :: "lib \<Rightarrow> int \<Rightarrow> nat \<Rightarrow> world \<Rightarrow> (error + unit) \<times> world" where
  "reverse_migration L now a w =
     (let m = heap w a;
          src = source_path m;
          w0 = logger INFO ''Reversing'' [ArgStr (operation m), ArgPath src] w
      in if operation m = ''archive'' \<or> operation m = ''move'' then
           (case dest_path m of
              None \<Rightarrow> (Inl FileNotFoundError, w0)
            | Some dst \<Rightarrow>
                if path_exists (fs w0) dst then
                  (case mkdir_parents (fs w0) (parent src) of
                     Inl e \<Rightarrow> (Inl e, w0)
                   | Inr fs1 \<Rightarrow>
                       (case shutil_move fs1 dst src of
                          Inl e \<Rightarrow> (Inl e, w0\<lparr>fs := fs1\<rparr>)
                        | Inr fs2 \<Rightarrow>
                            (case track_migration L now dst (Some src) ''rollback_move''
                                    (''Rollback of '' @ operation m)
                                    (Some (JObj [(''original_migration'', migration_json m)]))
                                    (restore_file_metadata L src m (w0\<lparr>fs := fs2\<rparr>)) of
                               (Inl e, w3) \<Rightarrow> (Inl e, w3)
                             | (Inr r, w3) \<Rightarrow> (Inr (), w3))))
                else (Inl FileNotFoundError, w0))
         else if operation m = ''delete'' then
           (case archive_path m of
              None \<Rightarrow>
                (Inr (), logger WARNING ''Cannot rollback delete - no archive'' [ArgPath src] w0)
            | Some ap \<Rightarrow>
                if path_exists (fs w0) ap then
                  (case mkdir_parents (fs w0) (parent src) of
                     Inl e \<Rightarrow> (Inl e, w0)
                   | Inr fs1 \<Rightarrow>
                       (case copy2 fs1 ap src of
                          Inl e \<Rightarrow> (Inl e, w0\<lparr>fs := fs1\<rparr>)
                        | Inr fs2 \<Rightarrow>
                            (case track_migration L now ap (Some src) ''rollback_restore''
                                    ''Rollback of delete''
                                    (Some (JObj [(''original_migration'', migration_json m)]))
                                    (w0\<lparr>fs := fs2\<rparr>) of
                               (Inl e, w3) \<Rightarrow> (Inl e, w3)
                             | (Inr r, w3) \<Rightarrow> (Inr (), w3))))
                else (Inl FileNotFoundError, w0))
         else if operation m = ''consolidate'' then reverse_consolidation L now m w0
         else (Inr (), w0))"

text \<open>
  The loop of \<open>rollback_to_point\<close> over the records to reverse, already in reverse
  order: an exception of one reversal is logged and becomes an entry of \<open>errors\<close>, and
  the loop goes on.
\<close>

fun reverse_all ::
  "lib \<Rightarrow> int \<Rightarrow> nat list \<Rightarrow> rollback_error list \<Rightarrow> world \<Rightarrow> rollback_error list \<times> world" where
  "reverse_all L now [] errs w = (errs, w)"
| "reverse_all L now (a # as) errs w =
     (case reverse_migration L now a w of
        (Inr u, w1) \<Rightarrow> reverse_all L now as errs w1
      | (Inl e, w1) \<Rightarrow>
          reverse_all L now as (errs @ [ReversalFailed (source_path (heap w a)) e])
            (logger ERROR ''Failed to reverse migration''
               [ArgPath (source_path (heap w a)), ArgErr e] w1))"

definition issue_message :: "issue \<Rightarrow> rollback_error" where
  "issue_message i =
     (case i of
        MissingDestination m d \<Rightarrow> VerificationIssue ''Destination file missing'' d
      | HashMismatch m d dh h \<Rightarrow> VerificationIssue ''File hash changed'' d
      | SourceNotRemoved m s \<Rightarrow> VerificationIssue ''Source file still exists after move'' s)"

definition is_source_not_removed :: "issue \<Rightarrow> bool" where
  "is_source_not_removed i = (case i of SourceNotRemoved m s \<Rightarrow> True | _ \<Rightarrow> False)"

definition verify_rollback :: "lib \<Rightarrow> world \<Rightarrow> error + rollback_error list" where
  "verify_rollback L w =
     (case verify_migration_integrity L w of
        Inl e \<Rightarrow> Inl e
      | Inr issues \<Rightarrow>
          Inr (map issue_message (filter (\<lambda>i. \<not> is_source_not_removed i) issues)))"

text \<open>
  \<open>_record_rollback\<close>: the record joins \<open>rollback_history\<close> in memory, then the
  history is written straight onto \<open>rollback_log.json\<close>.
\<close>

definition record_rollback ::
  "lib \<Rightarrow> int \<Rightarrow> string \<Rightarrow> bool \<Rightarrow> rollback_error list \<Rightarrow> world \<Rightarrow> (error + unit) \<times> world" where
  "record_rollback L now rid ok errs w =
     (case (case load_rollback_point w rid of
              Inl e \<Rightarrow> Inl e
            | Inr c \<Rightarrow> point_created_at c) of
        Inl e \<Rightarrow> (Inl e, w)
      | Inr created \<Rightarrow>
          (let rollback_rec =
                 \<lparr>rollback_id = rid, rr_timestamp = isoformat L now, success = ok,
                  errors = errs,
                  migrations_reversed = length (get_migrations_after w created)\<rparr>;
               w1 = w\<lparr>rollback_history := rollback_history w @ [rollback_rec]\<rparr>
           in case write_file (fs w1) (rollback_log_path w1)
                     (RollbackLogJson (rollback_history w1)) (isoformat L now) of
                Inl e \<Rightarrow> (Inl e, w1)
              | Inr fs1 \<Rightarrow> (Inr (), w1\<lparr>fs := fs1\<rparr>)))"

text \<open>
  The outer handler of \<open>rollback_to_point\<close>: the exception joins \<open>errors\<close> and the
  call returns \<open>False\<close>. When the attempt was recorded before, the record holds the
  same list object, so the new entry shows there too.
\<close>

definition rollback_failed ::
  "bool \<Rightarrow> error \<Rightarrow> rollback_error list \<Rightarrow> world
     \<Rightarrow> (error + bool \<times> rollback_error list) \<times> world" where
  "rollback_failed recorded e errs w =
     (let errs1 = errs @ [RollbackFailed e];
          w1 = logger ERROR ''Rollback failed'' [ArgErr e] w
      in (Inr (False, errs1),
          (if recorded \<and> rollback_history w1 \<noteq> []
           then w1\<lparr>rollback_history :=
                      butlast (rollback_history w1)
                      @ [(last (rollback_history w1))\<lparr>errors := errs1\<rparr>]\<rparr>
           else w1)))"

text \<open>
  What \<open>rollback_to_point\<close> does inside its \<open>try\<close>, given the creation time of the
  point: the reversals, the verification, the record of the attempt, the commit.
\<close>

definition rollback_body ::
  "lib \<Rightarrow> int \<Rightarrow> string \<Rightarrow> bool \<Rightarrow> string \<Rightarrow> world
     \<Rightarrow> (error + bool \<times> rollback_error list) \<times> world" where
  "rollback_body L now rid verify created w1 =
     (let migrations_to_reverse = get_migrations_after w1 created;
          w2 = logger INFO ''Found operations to reverse''
                 [ArgNat (length migrations_to_reverse)] w1;
          looped = reverse_all L now (rev migrations_to_reverse) [] w2;
          w3 = snd looped
      in case (if verify then verify_rollback L w3 else Inr []) of
           Inl e \<Rightarrow> rollback_failed False e (fst looped) w3
         | Inr verification_errors \<Rightarrow>
             (let errs = fst looped @ verification_errors in
              case record_rollback L now rid (errs = []) errs w3 of
                (Inl e, w4) \<Rightarrow>
                  rollback_failed (rollback_history w4 \<noteq> rollback_history w3) e errs w4
              | (Inr u, w4) \<Rightarrow>
                  (case commit_transaction L now w4 of
                     (Inl e, w5) \<Rightarrow> rollback_failed True e errs w5
                   | (Inr u2, w5) \<Rightarrow>
                       (Inr (errs = [], errs),
                        logger INFO (if errs = [] then ''Rollback completed successfully''
                                     else ''Rollback completed with errors'') [] w5))))"

text \<open>
  \<open>rollback_to_point\<close>: the point's file is looked for and loaded before the \<open>try\<close>,
  so a failure to read it reaches the caller; then the rollback transaction is
  started, and from the first look into the loaded document on, every exception ends
  the call with \<open>False\<close> and a last entry of \<open>errors\<close>.
\<close>

definition rollback_to_point ::
  "lib \<Rightarrow> int \<Rightarrow> string \<Rightarrow> bool \<Rightarrow> world
     \<Rightarrow> (error + bool \<times> rollback_error list) \<times> world" where
  "rollback_to_point L now rid verify w =
     (let wa = logger INFO ''Starting rollback to point'' [ArgStr rid] w;
          not_found = (Inr (False, [RollbackPointNotFound rid]),
                       logger ERROR ''Rollback point not found'' [ArgStr rid] wa)
      in case rollback_file wa rid of
           Inl e \<Rightarrow> not_found
         | Inr p \<Rightarrow>
             if \<not> path_exists (fs wa) p then not_found
             else
               (case read_json (fs wa) p of
                  Inl e \<Rightarrow> (Inl e, wa)
                | Inr c \<Rightarrow>
                    (let w1 = snd (start_transaction L now (''Rollback to '' @ rid) wa) in
                     case point_created_at c of
                       Inl e \<Rightarrow> rollback_failed False e [] w1
                     | Inr created \<Rightarrow> rollback_body L now rid verify created w1)))"

section \<open>SessionManager\<close>

text \<open>
  The manager's attributes and the files it works on. The checkpoint thread is kept as
  the flag that it was started; \<open>urandom\<close> is the hexadecimal text of the random
  bytes the next identifier takes.
\<close>

record session_manager =
  sm_fs :: filesystem
  sm_logs :: "log_line list"
  sm_work_dir :: path
  sm_session :: "session option"
  is_active :: bool
  checkpoint_thread :: bool
  process_id :: nat

definition sm_logger :: "level \<Rightarrow> string \<Rightarrow> arg list \<Rightarrow> session_manager \<Rightarrow> session_manager" where
  "sm_logger lv msg args s = s\<lparr>sm_logs := sm_logs s @ [Log lv msg args]\<rparr>"

definition session_file :: "session_manager \<Rightarrow> path" where
  "session_file s = sm_work_dir s @ [''current_session.json'']"

definition session_lock_file :: "session_manager \<Rightarrow> path" where
  "session_lock_file s = sm_work_dir s @ [''session.lock'']"

text \<open>
  \<open>_check_session_lock\<close>: a lock that cannot be read, or whose time stamp is more than
  300 seconds old, counts as no lock.
\<close>

definition check_session_lock :: "lib \<Rightarrow> int \<Rightarrow> session_manager \<Rightarrow> bool \<times> session_manager" where
  "check_session_lock L now s =
     (if \<not> path_exists (sm_fs s) (session_lock_file s) then (False, s)
      else
        (case (if is_dir (sm_fs s) (session_lock_file s) then Inl IsADirectoryError
               else case sm_fs s (session_lock_file s) of
                 Some (File (LockJson lk) t m) \<Rightarrow>
                   (case fromisoformat L (lock_timestamp lk) of
                      None \<Rightarrow> Inl ValueError
                    | Some lock_time \<Rightarrow> Inr lock_time)
               | Some (File (Raw r) t m) \<Rightarrow> Inl JSONDecodeError
               | Some (File c t m) \<Rightarrow> Inl KeyError
               | _ \<Rightarrow> Inl FileNotFoundError) of
           Inl e \<Rightarrow> (False, sm_logger ERROR ''Error checking session lock'' [ArgErr e] s)
         | Inr lock_time \<Rightarrow>
             if now - lock_time > 300 * 1000000
             then (False, sm_logger WARNING ''Found stale session lock'' [] s)
             else (True, s)))"

definition prompt_resume :: bool where
  "prompt_resume = True"

definition prompt_takeover :: bool where
  "prompt_takeover = True"

definition create_new_session :: "lib \<Rightarrow> int \<Rightarrow> string \<Rightarrow> string \<Rightarrow> session" where
  "create_new_session L now urandom proj =
     \<lparr>s_id = strftime L now @ ''_'' @ urandom, project_path = proj,
      started_at = isoformat L now, s_status = ''active'', phase = ''initialization'',
      checkpoints = [], completed_operations = [], pending_operations = [], s_errors = [],
      stats = [(''files_analyzed'', 0), (''files_processed'', 0), (''tests_run'', 0),
               (''operations_completed'', 0)],
      resumed_at = None\<rparr>"

definition read_session :: "filesystem \<Rightarrow> path \<Rightarrow> error + session" where
  "read_session f p =
     (if is_dir f p then Inl IsADirectoryError
      else case f p of
        Some (File (SessionJson ss) t m) \<Rightarrow> Inr ss
      | Some (File (Raw r) t m) \<Rightarrow> Inl JSONDecodeError
      | Some (File c t m) \<Rightarrow> Inl KeyError
      | _ \<Rightarrow> Inl FileNotFoundError)"

definition check_abandoned_session :: "session_manager \<Rightarrow> session option \<times> session_manager" where
  "check_abandoned_session s =
     (if path_exists (sm_fs s) (session_file s) then
        (case read_session (sm_fs s) (session_file s) of
           Inl e \<Rightarrow> (None, sm_logger ERROR ''Error loading abandoned session'' [ArgErr e] s)
         | Inr ss \<Rightarrow> (if s_status ss = ''active'' then (Some ss, s) else (None, s)))
      else (None, s))"

definition load_session :: "session_manager \<Rightarrow> string \<Rightarrow> error + session" where
  "load_session s sid =
     (let from_archive =
            (case joinpath (sm_fs s) (sm_work_dir s @ [''sessions'']) (sid @ ''.json'') of
               Inl e \<Rightarrow> Inl FileNotFoundError
             | Inr archive_file \<Rightarrow>
                 if path_exists (sm_fs s) archive_file
                 then read_session (sm_fs s) archive_file
                 else Inl FileNotFoundError)
      in if path_exists (sm_fs s) (session_file s) then
           (case read_session (sm_fs s) (session_file s) of
              Inl e \<Rightarrow> Inl e
            | Inr ss \<Rightarrow> if s_id ss = sid then Inr ss else from_archive)
         else from_archive)"

definition archive_session :: "lib \<Rightarrow> int \<Rightarrow> session \<Rightarrow> session_manager \<Rightarrow> (error + unit) \<times> session_manager" where
  "archive_session L now ss s =
     (case mkdir_exist_ok (sm_fs s) (sm_work_dir s @ [''sessions'']) of
        Inl e \<Rightarrow> (Inl e, s)
      | Inr fs1 \<Rightarrow>
          (case (case joinpath fs1 (sm_work_dir s @ [''sessions'']) (s_id ss @ ''.json'') of
                   Inl e \<Rightarrow> Inl e
                 | Inr archive_file \<Rightarrow>
                     write_file fs1 archive_file (SessionJson ss) (isoformat L now)) of
             Inl e \<Rightarrow> (Inl e, s\<lparr>sm_fs := fs1\<rparr>)
           | Inr fs2 \<Rightarrow>
               if path_exists fs2 (session_file s) then
                 (case unlink fs2 (session_file s) of
                    Inl e \<Rightarrow> (Inl e, s\<lparr>sm_fs := fs2\<rparr>)
                  | Inr fs3 \<Rightarrow> (Inr (), s\<lparr>sm_fs := fs3\<rparr>))
               else (Inr (), s\<lparr>sm_fs := fs2\<rparr>)))"

definition create_session_lock :: "lib \<Rightarrow> int \<Rightarrow> session_manager \<Rightarrow> (error + unit) \<times> session_manager" where
  "create_session_lock L now s =
     (case sm_session s of
        None \<Rightarrow> (Inl TypeError, s)
      | Some ss \<Rightarrow>
          (case write_file (sm_fs s) (session_lock_file s)
                  (LockJson \<lparr>lock_session_id = s_id ss, lock_timestamp = isoformat L now,
                             pid = process_id s\<rparr>) (isoformat L now) of
             Inl e \<Rightarrow> (Inl e, s)
           | Inr fs1 \<Rightarrow> (Inr (), s\<lparr>sm_fs := fs1\<rparr>)))"

text \<open>
  \<open>_save_session\<close>: the session goes to \<open>current_session.tmp\<close>, which then replaces
  \<open>current_session.json\<close>; a failure is logged and not raised.
\<close>

definition save_session :: "lib \<Rightarrow> int \<Rightarrow> session_manager \<Rightarrow> session_manager" where
  "save_session L now s =
     (case sm_session s of
        None \<Rightarrow> s
      | Some ss \<Rightarrow>
          (let temp_file = sm_work_dir s @ [''current_session.tmp''] in
           case write_file (sm_fs s) temp_file (SessionJson ss) (isoformat L now) of
             Inl e \<Rightarrow> sm_logger ERROR ''Failed to save session'' [ArgErr e] s
           | Inr fs1 \<Rightarrow>
               (case replace_file fs1 temp_file (session_file s) of
                  Inl e \<Rightarrow> sm_logger ERROR ''Failed to save session'' [ArgErr e] (s\<lparr>sm_fs := fs1\<rparr>)
                | Inr fs2 \<Rightarrow> s\<lparr>sm_fs := fs2\<rparr>)))"

text \<open>
  \<open>start_session\<close>. With a lock that counts, the code logs a warning and asks
  \<open>_prompt_takeover\<close>, which always answers yes.
\<close>

definition start_session ::
  "lib \<Rightarrow> int \<Rightarrow> string \<Rightarrow> string \<Rightarrow> string option \<Rightarrow> session_manager
     \<Rightarrow> (error + session) \<times> session_manager" where
  "start_session L now urandom proj resume_session_id s =
     (let locked = check_session_lock L now s;
          s1 = (if fst locked
                then sm_logger WARNING ''Another session appears to be active'' [] (snd locked)
                else snd locked)
      in if fst locked \<and> \<not> prompt_takeover then (Inl RuntimeError, s1)
         else
           (case (if truthy_str resume_session_id then
                    (case resume_session_id of
                       None \<Rightarrow> (Inl TypeError, s1)
                     | Some sid \<Rightarrow>
                         (case load_session s1 sid of
                            Inl e \<Rightarrow> (Inl e, s1)
                          | Inr ss \<Rightarrow>
                              (Inr ss, sm_logger INFO ''Resuming session'' [ArgStr sid] s1)))
                  else
                    (case check_abandoned_session s1 of
                       (Some ab, s2) \<Rightarrow>
                         (let s3 = sm_logger INFO ''Found abandoned session'' [ArgStr (s_id ab)] s2 in
                          if prompt_resume
                          then (Inr (ab\<lparr>resumed_at := Some (isoformat L now)\<rparr>), s3)
                          else (case archive_session L now ab s3 of
                                  (Inl e, s4) \<Rightarrow> (Inl e, s4)
                                | (Inr u, s4) \<Rightarrow>
                                    (Inr (create_new_session L now urandom proj), s4)))
                     | (None, s2) \<Rightarrow> (Inr (create_new_session L now urandom proj), s2))) of
              (Inl e, s5) \<Rightarrow> (Inl e, s5)
            | (Inr ss, s5) \<Rightarrow>
                (case create_session_lock L now (s5\<lparr>sm_session := Some ss\<rparr>) of
                   (Inl e, s6) \<Rightarrow> (Inl e, s6)
                 | (Inr u, s6) \<Rightarrow>
                     (Inr ss,
                      sm_logger INFO ''Session started'' [ArgStr (s_id ss)]
                        ((save_session L now s6)\<lparr>checkpoint_thread := True,
                                                   is_active := True\<rparr>)))))"

section \<open>AuditLogger\<close>













section \<open>Vocabulary of the statements\<close>

text \<open>A regular file stands at the path.\<close>

definition is_file :: "filesystem \<Rightarrow> path \<Rightarrow> bool" where
  "is_file f p = (case f p of Some (File c t m) \<Rightarrow> True | _ \<Rightarrow> False)"

text \<open>
  Something exists at the path \<open>transactions/<id>.json\<close> of the work directory, as the
  operating system resolves it.
\<close>

definition archive_exists :: "world \<Rightarrow> string \<Rightarrow> bool" where
  "archive_exists w tid =
     (case joinpath (fs w) (work_dir w @ [''transactions'']) (tid @ ''.json'') of
        Inl e \<Rightarrow> False
      | Inr p \<Rightarrow> path_exists (fs w) p)"

text \<open>
  The line \<open>_reverse_migration\<close> logs when it starts on a record, and the test for
  such a line.
\<close>

definition reversing_line :: "migration \<Rightarrow> log_line" where
  "reversing_line m = Log INFO ''Reversing'' [ArgStr (operation m), ArgPath (source_path m)]"

definition is_reversing :: "log_line \<Rightarrow> bool" where
  "is_reversing l = (case l of Log lv msg args \<Rightarrow> msg = ''Reversing'')"

definition is_rollback_failed :: "rollback_error \<Rightarrow> bool" where
  "is_rollback_failed x = (case x of RollbackFailed e \<Rightarrow> True | _ \<Rightarrow> False)"

text \<open>
  What the operations of the tracker leave alone: the records allocated so far, the
  rollback manager's attributes, the work directory, and the \<open>Reversing\<close> lines of the
  log.
\<close>

definition frame :: "world \<Rightarrow> world \<Rightarrow> bool" where
  "frame w w' =
     (next_addr w \<le> next_addr w' \<and> (\<forall>a. a < next_addr w \<longrightarrow> heap w' a = heap w a) \<and>
      rb_work_dir w' = rb_work_dir w \<and> rollback_history w' = rollback_history w \<and>
      work_dir w' = work_dir w \<and>
      filter is_reversing (logs w') = filter is_reversing (logs w))"

text \<open>A library instance and a small project tree for the examples.\<close>

definition lib0 :: lib where
  "lib0 = \<lparr>sha256_hex = (\<lambda>c. case c of Raw s \<Rightarrow> ''h:'' @ s | _ \<Rightarrow> ''h-doc''),
           md5_hex = (\<lambda>s. ''0123456789abcdef''),
           byte_size = (\<lambda>c. case c of Raw s \<Rightarrow> length s | _ \<Rightarrow> 0),
           isoformat = (\<lambda>t. ''2024-06-01T12:00:00''),
           fromisoformat = (\<lambda>s. Some 0),
           strftime = (\<lambda>t. ''20240601_120000''),
           mtime_text = (\<lambda>t. ''2024-06-01T12:00:00''),
           json_dumps = (\<lambda>j. [])\<rparr>"

definition rec0 :: migration where
  "rec0 = \<lparr>timestamp = ''2024-06-01T11:00:00'', transaction_id = Some ''t1'',
           operation = ''move'', source_path = [''proj'', ''a.txt''],
           dest_path = Some [''proj'', ''archive'', ''a.txt''],
           source_hash = Some ''h:x'', dest_hash = None, file_size = 1,
           file_modified = Some ''2024-05-01T00:00:00'', file_permissions = Some 420,
           reason = ''unused'', metadata = JObj [], status = ''pending'', error = None,
           completed_at = None, rollback_time = None, rollback_error = None,
           archive_path = None\<rparr>"

definition tx0 :: "nat transaction" where
  "tx0 = \<lparr>tx_id = ''t1'', description = ''first'', start_time = ''2024-06-01T10:59:00'',
          operations = [0], tx_status = ''in_progress'', end_time = None,
          failed_operations = None, tx_rollback_time = None\<rparr>"

definition fs0 :: filesystem where
  "fs0 = [[''proj''] \<mapsto> Dir, [''proj'', ''.vibepruner''] \<mapsto> Dir,
          [''proj'', ''archive''] \<mapsto> Dir]"

definition world0 :: world where
  "world0 = \<lparr>fs = fs0, heap = (\<lambda>a. rec0), next_addr = 1, logs = [],
             work_dir = [''proj'', ''.vibepruner''], migrations = [0],
             current_transaction = Some tx0,
             rb_work_dir = [''proj'', ''.vibepruner''], rollback_history = []\<rparr>"

definition fs1 :: filesystem where
  "fs1 = fs0([''proj'', ''archive'', ''a.txt''] \<mapsto> File (Raw ''x'') ''2024-05-01T00:00:00'' 420)"

definition world1 :: world where
  "world1 = world0\<lparr>fs := fs1\<rparr>"

definition world2 :: world where
  "world2 = world1\<lparr>heap := (\<lambda>a. rec0\<lparr>status := ''success'', dest_hash := Some ''h:x''\<rparr>)\<rparr>"

text \<open>The work directory with a directory where the transaction log should be.\<close>

definition world7 :: world where
  "world7 = world0\<lparr>fs := fs0([''proj'', ''.vibepruner'', ''transaction_log.json''] \<mapsto> Dir)\<rparr>"

text \<open>The work directory with the transaction log of the active transaction on disk.\<close>

definition world8 :: world where
  "world8 = world0\<lparr>fs := fs0([''proj'', ''.vibepruner'', ''transaction_log.json''] \<mapsto>
                 File (TransactionJson (dump_transaction world0 (tx0\<lparr>operations := []\<rparr>)))
                      ''2024-06-01T10:59:00'' 420)\<rparr>"

text \<open>
  The same with the directory of the archived transactions in place, and nothing in it.
\<close>

definition world10 :: world where
  "world10 = world8\<lparr>fs := (fs world8)([''proj'', ''.vibepruner'', ''transactions''] \<mapsto> Dir)\<rparr>"

text \<open>
  A session manager in a work directory whose lock was written ten seconds ago by
  another process. With \<open>lib0\<close> the lock's time stamp reads as instant 0, so the
  clock of the example stands at ten million microseconds.
\<close>

definition sm0 :: session_manager where
  "sm0 = \<lparr>sm_fs = fs0([''proj'', ''.vibepruner'', ''session.lock''] \<mapsto>
                   File (LockJson \<lparr>lock_session_id = ''20240601_115950_aaaaaaaa'',
                                   lock_timestamp = ''2024-06-01T11:59:50'', pid = 4242\<rparr>)
                        ''2024-06-01T11:59:50'' 420),
          sm_logs = [], sm_work_dir = [''proj'', ''.vibepruner''], sm_session = None,
          is_active = False, checkpoint_thread = False, process_id = 777\<rparr>"






section \<open>Paths\<close>

lemma split_on_plain:
  "c \<notin> set s \<Longrightarrow> split_on c s = [s]"
  by (induction s) auto

lemma json_name_plain:
  "tid @ ''.json'' \<noteq> []" "tid @ ''.json'' \<noteq> ''.''" "tid @ ''.json'' \<noteq> ''..''"
  by (auto dest: arg_cong [where f = length])

lemma joinpath_plain:
  assumes "CHR ''/'' \<notin> set tid" "is_dir f d"
  shows "joinpath f d (tid @ ''.json'') = Inr (d @ [tid @ ''.json''])"
proof -
  have n: "CHR ''/'' \<notin> set (tid @ ''.json'')" using assms(1) by simp
  then have h: "hd (tid @ ''.json'') \<noteq> CHR ''/''"
    by (metis hd_in_set json_name_plain(1))
  have e: "path_exists f d" using assms(2) by (auto simp: is_dir_def path_exists_def)
  show ?thesis
    unfolding joinpath_def split_on_plain [OF n]
    using h e assms(2) json_name_plain [of tid] by simp
qed

section \<open>Frame lemmas\<close>

lemma write_file_Inr:
  "write_file f p c t = Inr f' \<Longrightarrow> \<exists>m. f' = f(p \<mapsto> File c t m)"
  by (auto simp: write_file_def open_w_def put_content_def split: if_splits)

lemma write_file_ok:
  "\<not> is_dir f p \<Longrightarrow> is_dir f (parent p) \<Longrightarrow>
   \<exists>m. write_file f p c t = Inr (f(p \<mapsto> File c t m))"
  by (auto simp: write_file_def open_w_def put_content_def is_dir_def path_exists_def)

lemma save_transaction_frame [simp]:
  "heap (save_transaction L now w) = heap w"
  "next_addr (save_transaction L now w) = next_addr w"
  "work_dir (save_transaction L now w) = work_dir w"
  "migrations (save_transaction L now w) = migrations w"
  "current_transaction (save_transaction L now w) = current_transaction w"
  "rb_work_dir (save_transaction L now w) = rb_work_dir w"
  "rollback_history (save_transaction L now w) = rollback_history w"
  by (simp_all add: save_transaction_def logger_def split: option.splits sum.splits)

lemma save_migrations_frame:
  "save_migrations L now w = (r, w') \<Longrightarrow>
     heap w' = heap w \<and> next_addr w' = next_addr w \<and> work_dir w' = work_dir w \<and>
     migrations w' = migrations w \<and> current_transaction w' = current_transaction w \<and>
     rb_work_dir w' = rb_work_dir w \<and> rollback_history w' = rollback_history w"
  by (auto simp: save_migrations_def logger_def Let_def split: sum.splits)

lemma logger_frame [simp]:
  "fs (logger lv s xs w) = fs w"
  "heap (logger lv s xs w) = heap w"
  "next_addr (logger lv s xs w) = next_addr w"
  "work_dir (logger lv s xs w) = work_dir w"
  "migrations (logger lv s xs w) = migrations w"
  "current_transaction (logger lv s xs w) = current_transaction w"
  "rb_work_dir (logger lv s xs w) = rb_work_dir w"
  "rollback_history (logger lv s xs w) = rollback_history w"
  "logs (logger lv s xs w) = logs w @ [Log lv s xs]"
  by (simp_all add: logger_def)

lemma archive_transaction_frame:
  "archive_transaction L now w = (r, w') \<Longrightarrow>
     heap w' = heap w \<and> next_addr w' = next_addr w \<and> work_dir w' = work_dir w \<and>
     migrations w' = migrations w \<and> current_transaction w' = current_transaction w \<and>
     logs w' = logs w"
  by (auto simp: archive_transaction_def Let_def split: option.splits sum.splits)

lemma dump_transaction_heap:
  "heap w1 = heap w \<Longrightarrow> dump_transaction w1 tx = dump_transaction w tx"
  by (simp add: dump_transaction_def)

lemma complete_migration_heap:
  assumes "complete_migration L now a succ err w = (r, w')"
  shows "\<exists>w2 w3. heap w2 = (heap w)(a := (if truthy_str err
                 then (heap w a)\<lparr>status := (if succ then ''success'' else ''failed''),
                        completed_at := Some (isoformat L now), error := err\<rparr>
                 else (heap w a)\<lparr>status := (if succ then ''success'' else ''failed''),
                        completed_at := Some (isoformat L now)\<rparr>)) \<and> fs w2 = fs w \<and>
          (verify_destination L a succ w2 = Inr w3 \<or> (\<exists>e. verify_destination L a succ w2 = Inl (e, w3))) \<and>
          heap w' = heap w3"
proof -
  define w2 where "w2 = w\<lparr>heap := (heap w)(a := (if truthy_str err
                 then (heap w a)\<lparr>status := (if succ then ''success'' else ''failed''),
                        completed_at := Some (isoformat L now), error := err\<rparr>
                 else (heap w a)\<lparr>status := (if succ then ''success'' else ''failed''),
                        completed_at := Some (isoformat L now)\<rparr>))\<rparr>"
  have c: "complete_migration L now a succ err w =
     (case verify_destination L a succ w2 of
           Inl (e, w3) \<Rightarrow> (Inl e, w3)
         | Inr w3 \<Rightarrow>
             (case save_migrations L now w3 of
                (Inl e, w4) \<Rightarrow> (Inl e, w4)
              | (Inr u, w4) \<Rightarrow>
                  (let w5 = save_transaction L now w4 in
                   (Inr (), logger INFO ''Migration''
                              [ArgStr (if succ then ''[OK]'' else ''[FAIL]''),
                               ArgStr (operation (heap w5 a)), ArgPath (source_path (heap w5 a)),
                               ArgStr (status (heap w5 a))] w5))))"
    unfolding complete_migration_def w2_def Let_def
    by (cases "truthy_str err") simp_all
  show ?thesis
  proof (cases "verify_destination L a succ w2")
    case (Inl p)
    then obtain e w3 where p: "verify_destination L a succ w2 = Inl (e, w3)" by (cases p) auto
    with c assms have "w' = w3" by simp
    with p show ?thesis
      by (intro exI [of _ w2] exI [of _ w3]) (simp add: w2_def)
  next
    case (Inr w3)
    obtain r4 w4 where s: "save_migrations L now w3 = (r4, w4)" by fastforce
    from save_migrations_frame [OF s] have h4: "heap w4 = heap w3" by simp
    have "heap w' = heap w3"
      using c assms Inr s h4 by (cases r4) (auto simp: Let_def)
    with Inr show ?thesis
      by (intro exI [of _ w2] exI [of _ w3]) (simp add: w2_def)
  qed
qed


lemma verify_destination_file:
  assumes "dest_path (heap w a) = Some d" "d \<noteq> []" "fs w d = Some (File c t m)"
  shows "\<exists>w3. verify_destination L a True w = Inr w3 \<and>
     heap w3 a =
       (if truthy_str (source_hash (heap w a))
           \<and> operation (heap w a) \<in> set [''move'', ''copy'', ''archive'']
           \<and> source_hash (heap w a) \<noteq> Some (sha256_hex L c)
        then (heap w a)\<lparr>dest_hash := Some (sha256_hex L c), status := ''failed'',
                        error := Some ''Hash verification failed''\<rparr>
        else (heap w a)\<lparr>dest_hash := Some (sha256_hex L c)\<rparr>)"
proof -
  have h: "calculate_file_hash L (fs w) d = Inr (sha256_hex L c)"
    using assms by (simp add: calculate_file_hash_def is_dir_def)
  have e: "path_exists (fs w) d" using assms by (simp add: path_exists_def)
  show ?thesis
    unfolding verify_destination_def using assms(1) h e
    by (auto simp: Let_def)
qed

lemma verify_destination_missing:
  assumes "dest_path (heap w a) = None \<or>
           (\<exists>d. dest_path (heap w a) = Some d \<and> \<not> path_exists (fs w) d)"
  shows "verify_destination L a True w = Inr w"
  using assms unfolding verify_destination_def by auto

lemma verify_destination_status:
  assumes "verify_destination L a succ w = Inr w3 \<or> verify_destination L a succ w = Inl (e, w3)"
  shows "(status (heap w3 a) = status (heap w a) \<or> status (heap w3 a) = ''failed'') \<and>
         completed_at (heap w3 a) = completed_at (heap w a)"
  using assms unfolding verify_destination_def
  by (auto simp: Let_def split: option.splits sum.splits if_splits)

lemma track_migration_pending:
  assumes "track_migration L t0 src dst opn rsn md w0 = (Inr a, w1)"
  shows "status (heap w1 a) = ''pending''"
  using assms unfolding track_migration_def
  by (auto simp: Let_def split: sum.splits prod.splits option.splits
           dest!: save_migrations_frame)

section \<open>The example worlds, field by field\<close>

lemma world0_sel:
  "fs world0 = fs0" "heap world0 = (\<lambda>a. rec0)" "next_addr world0 = 1" "logs world0 = []"
  "work_dir world0 = [''proj'', ''.vibepruner'']" "migrations world0 = [0]"
  "current_transaction world0 = Some tx0" "rb_work_dir world0 = [''proj'', ''.vibepruner'']"
  "rollback_history world0 = []"
  by (simp_all add: world0_def)

lemma rec0_sel:
  "timestamp rec0 = ''2024-06-01T11:00:00''" "transaction_id rec0 = Some ''t1''"
  "operation rec0 = ''move''" "source_path rec0 = [''proj'', ''a.txt'']"
  "dest_path rec0 = Some [''proj'', ''archive'', ''a.txt'']"
  "source_hash rec0 = Some ''h:x''" "dest_hash rec0 = None" "file_size rec0 = 1"
  "file_modified rec0 = Some ''2024-05-01T00:00:00''" "file_permissions rec0 = Some 420"
  "status rec0 = ''pending''" "error rec0 = None" "archive_path rec0 = None"
  by (simp_all add: rec0_def)

lemma tx0_sel:
  "tx_id tx0 = ''t1''" "operations tx0 = [0]" "tx_status tx0 = ''in_progress''"
  by (simp_all add: tx0_def)

lemma lib0_sel:
  "sha256_hex lib0 = (\<lambda>c. case c of Raw s \<Rightarrow> ''h:'' @ s | _ \<Rightarrow> ''h-doc'')"
  "md5_hex lib0 = (\<lambda>s. ''0123456789abcdef'')"
  "byte_size lib0 = (\<lambda>c. case c of Raw s \<Rightarrow> length s | _ \<Rightarrow> 0)"
  "isoformat lib0 = (\<lambda>t. ''2024-06-01T12:00:00'')"
  "fromisoformat lib0 = (\<lambda>s. Some 0)"
  "strftime lib0 = (\<lambda>t. ''20240601_120000'')"
  "mtime_text lib0 = (\<lambda>t. ''2024-06-01T12:00:00'')"
  by (simp_all add: lib0_def)

lemma world1_sel:
  "fs world1 = fs1" "heap world1 = (\<lambda>a. rec0)" "next_addr world1 = 1" "logs world1 = []"
  "work_dir world1 = [''proj'', ''.vibepruner'']" "migrations world1 = [0]"
  "current_transaction world1 = Some tx0" "rb_work_dir world1 = [''proj'', ''.vibepruner'']"
  "rollback_history world1 = []"
  by (simp_all add: world1_def world0_sel)

lemma world2_sel:
  "fs world2 = fs1"
  "heap world2 = (\<lambda>a. rec0\<lparr>status := ''success'', dest_hash := Some ''h:x''\<rparr>)"
  "next_addr world2 = 1" "logs world2 = []"
  "work_dir world2 = [''proj'', ''.vibepruner'']" "migrations world2 = [0]"
  "current_transaction world2 = Some tx0" "rb_work_dir world2 = [''proj'', ''.vibepruner'']"
  "rollback_history world2 = []"
  by (simp_all add: world2_def world1_sel)

section \<open>When the saves succeed\<close>

lemma is_dir_upd_file [simp]:
  "is_dir (f(p \<mapsto> File c t m)) q = (q \<noteq> p \<and> is_dir f q \<or> q = [])"
  by (auto simp: is_dir_def)

lemma replace_file_ok:
  "f src = Some (File c t m) \<Longrightarrow> \<not> is_dir f dst \<Longrightarrow> is_dir f (parent dst) \<Longrightarrow>
   replace_file f src dst = Inr ((f(src := None))(dst \<mapsto> File c t m))"
  by (auto simp: replace_file_def is_dir_def path_exists_def)

lemma save_migrations_ok:
  assumes "is_dir (fs w) (work_dir w)"
      and "\<not> is_dir (fs w) (work_dir w @ [''migration_log.tmp''])"
      and "\<not> is_dir (fs w) (migration_log_path w)"
  shows "\<exists>m. save_migrations L now w =
           (Inr (), w\<lparr>fs := ((fs w)(work_dir w @ [''migration_log.tmp''] := None))
                              (migration_log_path w \<mapsto>
                                 File (MigrationsJson (map (heap w) (migrations w)))
                                      (isoformat L now) m)\<rparr>)"
proof -
  let ?tmp = "work_dir w @ [''migration_log.tmp'']"
  let ?c = "MigrationsJson (map (heap w) (migrations w))"
  have "is_dir (fs w) (parent ?tmp)" using assms(1) by (simp add: parent_def)
  with assms(2) obtain m where
    wf: "write_file (fs w) ?tmp ?c (isoformat L now) = Inr ((fs w)(?tmp \<mapsto> File ?c (isoformat L now) m))"
    using write_file_ok by blast
  let ?f1 = "(fs w)(?tmp \<mapsto> File ?c (isoformat L now) m)"
  have ne: "migration_log_path w \<noteq> ?tmp" by (simp add: migration_log_path_def)
  have "replace_file ?f1 ?tmp (migration_log_path w) =
          Inr ((?f1(?tmp := None))(migration_log_path w \<mapsto> File ?c (isoformat L now) m))"
    using assms ne by (intro replace_file_ok) (auto simp: migration_log_path_def parent_def is_dir_def)
  with wf show ?thesis
    by (intro exI [of _ m]) (simp add: save_migrations_def Let_def)
qed

lemma verify_destination_fs:
  "verify_destination L a succ w = Inr w3 \<or> verify_destination L a succ w = Inl (e, w3) \<Longrightarrow>
     fs w3 = fs w \<and> work_dir w3 = work_dir w"
  unfolding verify_destination_def
  by (auto simp: Let_def split: option.splits sum.splits if_splits)


lemma complete_migration_missing:
  assumes miss: "dest_path (heap w a) = None \<or>
                 (\<exists>d. dest_path (heap w a) = Some d \<and> \<not> path_exists (fs w) d)"
      and "is_dir (fs w) (work_dir w)"
      and "\<not> is_dir (fs w) (work_dir w @ [''migration_log.tmp''])"
      and "\<not> is_dir (fs w) (migration_log_path w)"
  shows "fst (complete_migration L now a True err w) = Inr () \<and>
         status (heap (snd (complete_migration L now a True err w)) a) = ''success'' \<and>
         dest_hash (heap (snd (complete_migration L now a True err w)) a) = dest_hash (heap w a)"
proof -
  define m2 where "m2 = (if truthy_str err
                 then (heap w a)\<lparr>status := (if True then ''success'' else ''failed''),
                        completed_at := Some (isoformat L now), error := err\<rparr>
                 else (heap w a)\<lparr>status := (if True then ''success'' else ''failed''),
                        completed_at := Some (isoformat L now)\<rparr>)"
  define w2 where "w2 = w\<lparr>heap := (heap w)(a := m2)\<rparr>"
  have m2: "status m2 = ''success''" "dest_path m2 = dest_path (heap w a)"
    "dest_hash m2 = dest_hash (heap w a)"
    by (simp_all add: m2_def)
  have "dest_path (heap w2 a) = None \<or>
        (\<exists>d. dest_path (heap w2 a) = Some d \<and> \<not> path_exists (fs w2) d)"
    using miss by (simp add: w2_def m2)
  then have v: "verify_destination L a True w2 = Inr w2"
    by (rule verify_destination_missing)
  have "is_dir (fs w2) (work_dir w2)"
       "\<not> is_dir (fs w2) (work_dir w2 @ [''migration_log.tmp''])"
       "\<not> is_dir (fs w2) (migration_log_path w2)"
    using assms(2-4) by (simp_all add: w2_def migration_log_path_def)
  from save_migrations_ok [OF this, of L now] obtain w4 where
    s: "save_migrations L now w2 = (Inr (), w4)" by blast
  from save_migrations_frame [OF s] have h4: "heap w4 = heap w2" by simp
  have c: "complete_migration L now a True err w =
     (case verify_destination L a True w2 of
           Inl (e, w3) \<Rightarrow> (Inl e, w3)
         | Inr w3 \<Rightarrow>
             (case save_migrations L now w3 of
                (Inl e, w4) \<Rightarrow> (Inl e, w4)
              | (Inr u, w4) \<Rightarrow>
                  (let w5 = save_transaction L now w4 in
                   (Inr (), logger INFO ''Migration''
                              [ArgStr (if True then ''[OK]'' else ''[FAIL]''),
                               ArgStr (operation (heap w5 a)), ArgPath (source_path (heap w5 a)),
                               ArgStr (status (heap w5 a))] w5))))"
    unfolding complete_migration_def w2_def m2_def Let_def
    by (cases "truthy_str err") simp_all
  have hw2: "heap w2 a = m2" by (simp add: w2_def)
  show ?thesis
    by (simp add: c v s Let_def h4 hw2 m2)
qed

section \<open>When the archive can be written\<close>

lemma mkdir_exist_ok_ok:
  assumes "is_dir f (parent p)" "p \<noteq> []" "\<not> is_file f p"
  shows "mkdir_exist_ok f p = Inr (if is_dir f p then f else f(p \<mapsto> Dir))"
  using assms
  by (auto simp: mkdir_exist_ok_def is_dir_def path_exists_def is_file_def
           split: option.splits node.splits)

lemma save_transaction_fs:
  "p \<noteq> transaction_log_path w \<Longrightarrow> fs (save_transaction L now w) p = fs w p"
  by (auto simp: save_transaction_def logger_def Let_def
           split: option.splits sum.splits dest!: write_file_Inr)

lemma archive_transaction_ok:
  assumes cur: "current_transaction w = Some tx"
      and wd: "is_dir (fs w) (work_dir w)"
      and nf: "\<not> is_file (fs w) (work_dir w @ [''transactions''])"
      and nd: "\<not> is_dir (fs w) (work_dir w @ [''transactions'', tx_id tx @ ''.json''])"
      and pl: "CHR ''/'' \<notin> set (tx_id tx)"
  shows "\<exists>f m. archive_transaction L now w = (Inr (), w\<lparr>fs := f\<rparr>) \<and>
           f (work_dir w @ [''transactions'', tx_id tx @ ''.json'']) =
             Some (File (TransactionJson (dump_transaction w tx)) (isoformat L now) m) \<and>
           (\<forall>p. p \<noteq> work_dir w @ [''transactions'', tx_id tx @ ''.json''] \<and>
                p \<noteq> work_dir w @ [''transactions''] \<longrightarrow> f p = fs w p)"
proof -
  let ?d = "work_dir w @ [''transactions'']"
  let ?a = "work_dir w @ [''transactions'', tx_id tx @ ''.json'']"
  let ?c = "TransactionJson (dump_transaction w tx)"
  define f1 where "f1 = (if is_dir (fs w) ?d then fs w else (fs w)(?d \<mapsto> Dir))"
  have mk: "mkdir_exist_ok (fs w) ?d = Inr f1"
    unfolding f1_def using wd nf by (intro mkdir_exist_ok_ok) (simp_all add: parent_def)
  have d1: "is_dir f1 ?d" by (simp add: f1_def is_dir_def)
  have jp: "joinpath f1 ?d (tx_id tx @ ''.json'') = Inr ?a"
    using joinpath_plain [OF pl d1] by simp
  have nd1: "\<not> is_dir f1 ?a" using nd by (simp add: f1_def is_dir_def)
  have "is_dir f1 (parent ?a)" using d1 by (simp add: parent_def butlast_append)
  with nd1 obtain m where
    wf: "write_file f1 ?a ?c (isoformat L now) = Inr (f1(?a \<mapsto> File ?c (isoformat L now) m))"
    using write_file_ok by blast
  have "archive_transaction L now w = (Inr (), w\<lparr>fs := f1(?a \<mapsto> File ?c (isoformat L now) m)\<rparr>)"
    by (simp add: archive_transaction_def cur Let_def mk jp wf)
  moreover have "\<forall>p. p \<noteq> ?a \<and> p \<noteq> ?d \<longrightarrow> (f1(?a \<mapsto> File ?c (isoformat L now) m)) p = fs w p"
    by (simp add: f1_def)
  ultimately show ?thesis by (intro exI [of _ "f1(?a \<mapsto> File ?c (isoformat L now) m)"] exI [of _ m]) simp
qed

section \<open>Completing a migration\<close>

text \<open>
  C1. A tracked record starts pending, and \<open>complete_migration\<close> called with
  success leaves it success or failed. When the record's destination is an existing
  file, \<open>dest_hash\<close> is its hash and, for move, copy and archive with a known source
  hash, the record is success with equal hashes or failed with the error
  \<open>Hash verification failed\<close>. When the record has no destination, or nothing exists
  at it, the record ends success and \<open>dest_hash\<close> is left as it was: no check is
  made.
\<close>

theorem complete_migration_success:
  assumes "complete_migration L now a True err w = (r, w')"
  shows "(status (heap w' a) = ''success'' \<or> status (heap w' a) = ''failed'') \<and>
     completed_at (heap w' a) = Some (isoformat L now) \<and>
     (\<forall>d c t m. dest_path (heap w a) = Some d \<and> d \<noteq> [] \<and> fs w d = Some (File c t m) \<longrightarrow>
        dest_hash (heap w' a) = Some (sha256_hex L c) \<and>
        (if truthy_str (source_hash (heap w a))
            \<and> operation (heap w a) \<in> {''move'', ''copy'', ''archive''}
         then (status (heap w' a) = ''success'' \<and>
                 source_hash (heap w a) = dest_hash (heap w' a)) \<or>
              (status (heap w' a) = ''failed'' \<and>
                 error (heap w' a) = Some ''Hash verification failed'' \<and>
                 source_hash (heap w a) \<noteq> dest_hash (heap w' a))
         else status (heap w' a) = ''success'')) \<and>
     (dest_path (heap w a) = None \<or>
      (\<exists>d. dest_path (heap w a) = Some d \<and> \<not> path_exists (fs w) d) \<longrightarrow>
        status (heap w' a) = ''success'' \<and> dest_hash (heap w' a) = dest_hash (heap w a)) \<and>
     (\<forall>t0 src dst opn rsn md w0 a0 w1.
        track_migration L t0 src dst opn rsn md w0 = (Inr a0, w1) \<longrightarrow>
        status (heap w1 a0) = ''pending'')"
proof -
  define m2 where "m2 = (if truthy_str err
                 then (heap w a)\<lparr>status := (if True then ''success'' else ''failed''),
                        completed_at := Some (isoformat L now), error := err\<rparr>
                 else (heap w a)\<lparr>status := (if True then ''success'' else ''failed''),
                        completed_at := Some (isoformat L now)\<rparr>)"
  from complete_migration_heap [OF assms] obtain w2 w3 where
    h2: "heap w2 = (heap w)(a := m2)" and f2: "fs w2 = fs w" and
    v: "verify_destination L a True w2 = Inr w3 \<or>
        (\<exists>e. verify_destination L a True w2 = Inl (e, w3))" and
    h': "heap w' = heap w3"
    unfolding m2_def by auto
  have m2: "status m2 = ''success''" "completed_at m2 = Some (isoformat L now)"
    "dest_path m2 = dest_path (heap w a)" "source_hash m2 = source_hash (heap w a)"
    "operation m2 = operation (heap w a)" "dest_hash m2 = dest_hash (heap w a)"
    by (simp_all add: m2_def)
  have at2: "heap w2 a = m2" by (simp add: h2)
  from v obtain e where v': "verify_destination L a True w2 = Inr w3 \<or>
        verify_destination L a True w2 = Inl (e, w3)" by blast
  have A: "(status (heap w' a) = ''success'' \<or> status (heap w' a) = ''failed'') \<and>
     completed_at (heap w' a) = Some (isoformat L now)"
    using verify_destination_status [OF v'] by (auto simp: h' at2 m2)
  have B: "dest_hash (heap w' a) = Some (sha256_hex L c) \<and>
        (if truthy_str (source_hash (heap w a))
            \<and> operation (heap w a) \<in> {''move'', ''copy'', ''archive''}
         then (status (heap w' a) = ''success'' \<and>
                 source_hash (heap w a) = dest_hash (heap w' a)) \<or>
              (status (heap w' a) = ''failed'' \<and>
                 error (heap w' a) = Some ''Hash verification failed'' \<and>
                 source_hash (heap w a) \<noteq> dest_hash (heap w' a))
         else status (heap w' a) = ''success'')"
    if "dest_path (heap w a) = Some d" "d \<noteq> []" "fs w d = Some (File c t m)" for d c t m
  proof -
    have "dest_path (heap w2 a) = Some d" "fs w2 d = Some (File c t m)"
      using that by (simp_all add: at2 m2 f2)
    from verify_destination_file [OF this(1) that(2) this(2), of L] v
    have "heap w3 a =
       (if truthy_str (source_hash (heap w a))
           \<and> operation (heap w a) \<in> set [''move'', ''copy'', ''archive'']
           \<and> source_hash (heap w a) \<noteq> Some (sha256_hex L c)
        then m2\<lparr>dest_hash := Some (sha256_hex L c), status := ''failed'',
                        error := Some ''Hash verification failed''\<rparr>
        else m2\<lparr>dest_hash := Some (sha256_hex L c)\<rparr>)"
      by (auto simp: at2 m2)
    then show ?thesis
      by (auto simp: h' m2)
  qed
  have C: "status (heap w' a) = ''success'' \<and> dest_hash (heap w' a) = dest_hash (heap w a)"
    if "dest_path (heap w a) = None \<or>
      (\<exists>d. dest_path (heap w a) = Some d \<and> \<not> path_exists (fs w) d)"
  proof -
    have "dest_path (heap w2 a) = None \<or>
      (\<exists>d. dest_path (heap w2 a) = Some d \<and> \<not> path_exists (fs w2) d)"
      using that by (simp add: at2 m2 f2)
    from verify_destination_missing [OF this, of L] v have "w3 = w2" by auto
    then show ?thesis by (simp add: h' at2 m2)
  qed
  show ?thesis
    using A B C track_migration_pending by blast
qed

theorem complete_migration_success_witness:
  "dest_hash (heap (snd (complete_migration lib0 0 0 True None world1)) 0) = Some ''h:x'' \<and>
   status (heap (snd (complete_migration lib0 0 0 True None world1)) 0) = ''success'' \<and>
   source_hash (heap world1 0) = Some ''h:x'' \<and> operation (heap world1 0) = ''move''"
proof -
  obtain r w' where eq: "complete_migration lib0 0 0 True None world1 = (r, w')"
    by fastforce
  have l: "dest_path (heap world1 0) = Some [''proj'', ''archive'', ''a.txt'']"
    "fs world1 [''proj'', ''archive'', ''a.txt''] =
       Some (File (Raw ''x'') ''2024-05-01T00:00:00'' 420)"
    "source_hash (heap world1 0) = Some ''h:x''" "operation (heap world1 0) = ''move''"
    "sha256_hex lib0 (Raw ''x'') = ''h:x''"
    by (simp_all add: world1_def world0_def rec0_def fs1_def lib0_def)
  from complete_migration_success [OF eq] l show ?thesis
    by (auto simp: eq truthy_str_def)
qed

text \<open>
  A move whose destination file is not there when it is completed with success: the
  record ends success with no \<open>dest_hash\<close>, its source hash known.
\<close>

theorem complete_migration_missing_dest_counterexample:
  "operation (heap world0 0) = ''move'' \<and> source_hash (heap world0 0) = Some ''h:x'' \<and>
   status (heap world0 0) = ''pending'' \<and>
   fst (complete_migration lib0 0 0 True None world0) = Inr () \<and>
   status (heap (snd (complete_migration lib0 0 0 True None world0)) 0) = ''success'' \<and>
   dest_hash (heap (snd (complete_migration lib0 0 0 True None world0)) 0) = None"
proof -
  have "dest_path (heap world0 0) = None \<or>
        (\<exists>d. dest_path (heap world0 0) = Some d \<and> \<not> path_exists (fs world0) d)"
    by (simp add: world0_sel rec0_sel fs0_def path_exists_def)
  moreover have "is_dir (fs world0) (work_dir world0)"
       "\<not> is_dir (fs world0) (work_dir world0 @ [''migration_log.tmp''])"
       "\<not> is_dir (fs world0) (migration_log_path world0)"
    by (simp_all add: world0_sel fs0_def is_dir_def migration_log_path_def)
  ultimately show ?thesis
    using complete_migration_missing [of world0 0 lib0 0 None]
    by (simp add: world0_sel rec0_sel)
qed

section \<open>Committing a transaction\<close>

text \<open>
  C4. Let a transaction be active, the work directory exist, nothing but a directory
  stand at \<open>transactions\<close> in it, no directory stand where the archive file goes, and
  the transaction's identifier hold no path separator. Then \<open>commit_transaction\<close>
  returns; the transaction it archived under \<open>transactions/<id>.json\<close>, with its
  operations as they were, has its end time set and has status partial_failure exactly
  when a member record's status is not success, and committed otherwise; with every
  record success or failed, that is exactly when the number of failed records is
  positive, and that number is stored as \<open>failed_operations\<close>. The active slot is
  cleared; the records and the master log are as before.
\<close>

theorem commit_transaction_status:
  assumes "current_transaction w = Some tx"
      and "is_dir (fs w) (work_dir w)"
      and "\<not> is_file (fs w) (work_dir w @ [''transactions''])"
      and "\<not> is_dir (fs w) (work_dir w @ [''transactions'', tx_id tx @ ''.json''])"
      and "CHR ''/'' \<notin> set (tx_id tx)"
  shows "\<exists>w' t m. commit_transaction L now w = (Inr (), w') \<and>
     current_transaction w' = None \<and> heap w' = heap w \<and> migrations w' = migrations w \<and>
     fs w' (work_dir w @ [''transactions'', tx_id tx @ ''.json'']) =
        Some (File (TransactionJson t) (isoformat L now) m) \<and>
     tx_id t = tx_id tx \<and> description t = description tx \<and> start_time t = start_time tx \<and>
     operations t = map (heap w) (operations tx) \<and>
     end_time t = Some (isoformat L now) \<and>
     tx_status t = (if \<exists>a \<in> set (operations tx). status (heap w a) \<noteq> ''success''
                    then ''partial_failure'' else ''committed'') \<and>
     ((\<exists>a \<in> set (operations tx). status (heap w a) \<noteq> ''success'') \<longrightarrow>
        failed_operations t =
          Some (length (filter (\<lambda>a. status (heap w a) \<noteq> ''success'') (operations tx)))) \<and>
     ((\<forall>a \<in> set (operations tx). status (heap w a) \<in> {''success'', ''failed''}) \<longrightarrow>
        (tx_status t = ''partial_failure'' \<longleftrightarrow>
           0 < length (filter (\<lambda>a. status (heap w a) = ''failed'') (operations tx))))"
proof -
  define failed where "failed = filter (\<lambda>a. status (heap w a) \<noteq> ''success'') (operations tx)"
  define tx2 where "tx2 =
     (if failed \<noteq> []
      then tx\<lparr>end_time := Some (isoformat L now), tx_status := ''partial_failure'',
              failed_operations := Some (length failed)\<rparr>
      else tx\<lparr>end_time := Some (isoformat L now), tx_status := ''committed''\<rparr>)"
  define w1 where "w1 = save_transaction L now (w\<lparr>current_transaction := Some tx2\<rparr>)"
  let ?a = "work_dir w @ [''transactions'', tx_id tx @ ''.json'']"
  have id2: "tx_id tx2 = tx_id tx" "operations tx2 = operations tx"
    "description tx2 = description tx" "start_time tx2 = start_time tx"
    "end_time tx2 = Some (isoformat L now)"
    by (simp_all add: tx2_def)
  have cur1: "current_transaction w1 = Some tx2" by (simp add: w1_def)
  have h1: "heap w1 = heap w" "work_dir w1 = work_dir w" "migrations w1 = migrations w"
    by (simp_all add: w1_def)
  have f1: "fs w1 p = fs w p" if "p \<noteq> work_dir w @ [''transaction_log.json'']" for p
    unfolding w1_def using that save_transaction_fs [of p "w\<lparr>current_transaction := Some tx2\<rparr>" L now]
    by (simp add: transaction_log_path_def)
  have a1: "is_dir (fs w1) (work_dir w1)"
    using assms(2) by (simp add: is_dir_def f1 h1)
  have a2: "\<not> is_file (fs w1) (work_dir w1 @ [''transactions''])"
    using assms(3) by (simp add: is_file_def f1 h1)
  have a3: "\<not> is_dir (fs w1) (work_dir w1 @ [''transactions'', tx_id tx2 @ ''.json''])"
    using assms(4) by (simp add: is_dir_def f1 h1 id2)
  have a4: "CHR ''/'' \<notin> set (tx_id tx2)" using assms(5) by (simp add: id2)
  from archive_transaction_ok [OF cur1 a1 a2 a3 a4, of L now] obtain f m where
    arch: "archive_transaction L now w1 = (Inr (), w1\<lparr>fs := f\<rparr>)" and
    fa: "f ?a = Some (File (TransactionJson (dump_transaction w1 tx2)) (isoformat L now) m)"
    by (auto simp: h1 id2)
  define w' where "w' = (logger INFO ''Committed transaction''
                      [ArgStr (tx_id tx2), ArgStr (tx_status tx2)] (w1\<lparr>fs := f\<rparr>))
                   \<lparr>current_transaction := None\<rparr>"
  define t where "t = dump_transaction w1 tx2"
  have c: "commit_transaction L now w = (Inr (), w')"
  proof (cases "failed = []")
    case True
    with arch show ?thesis
      unfolding commit_transaction_def assms(1) w'_def w1_def tx2_def failed_def
      by (simp add: Let_def)
  next
    case False
    with arch show ?thesis
      unfolding commit_transaction_def assms(1) w'_def w1_def tx2_def failed_def
      by (simp add: Let_def)
  qed
  have ne: "failed \<noteq> [] \<longleftrightarrow> (\<exists>a \<in> set (operations tx). status (heap w a) \<noteq> ''success'')"
    by (simp add: failed_def filter_empty_conv)
  have st: "tx_status t = (if failed \<noteq> [] then ''partial_failure'' else ''committed'')"
    by (simp add: t_def tx2_def dump_transaction_def)
  have c0: "current_transaction w' = None" "heap w' = heap w" "migrations w' = migrations w"
    by (simp_all add: w'_def h1)
  have c1: "fs w' ?a = Some (File (TransactionJson t) (isoformat L now) m)"
    using fa by (simp add: w'_def t_def)
  have c2: "tx_id t = tx_id tx" "description t = description tx" "start_time t = start_time tx"
    "operations t = map (heap w) (operations tx)" "end_time t = Some (isoformat L now)"
    by (simp_all add: t_def dump_transaction_def id2 h1)
  have c4: "tx_status t = (if \<exists>a \<in> set (operations tx). status (heap w a) \<noteq> ''success''
                    then ''partial_failure'' else ''committed'')"
    unfolding st ne by simp
  have c5: "failed_operations t =
          Some (length (filter (\<lambda>a. status (heap w a) \<noteq> ''success'') (operations tx)))"
    if "\<exists>a \<in> set (operations tx). status (heap w a) \<noteq> ''success''"
    using that ne by (simp add: t_def tx2_def dump_transaction_def failed_def)
  have c6: "tx_status t = ''partial_failure'' \<longleftrightarrow>
              0 < length (filter (\<lambda>a. status (heap w a) = ''failed'') (operations tx))"
    if "\<forall>a \<in> set (operations tx). status (heap w a) \<in> {''success'', ''failed''}"
  proof -
    have "(\<exists>a \<in> set (operations tx). status (heap w a) \<noteq> ''success'') \<longleftrightarrow>
          (\<exists>a \<in> set (operations tx). status (heap w a) = ''failed'')"
    proof
      assume "\<exists>a \<in> set (operations tx). status (heap w a) \<noteq> ''success''"
      then show "\<exists>a \<in> set (operations tx). status (heap w a) = ''failed''"
        using that by auto
    next
      assume "\<exists>a \<in> set (operations tx). status (heap w a) = ''failed''"
      then obtain a where "a \<in> set (operations tx)" "status (heap w a) = ''failed''" by blast
      moreover have "''failed'' \<noteq> ''success''" by simp
      ultimately show "\<exists>a \<in> set (operations tx). status (heap w a) \<noteq> ''success''"
        by metis
    qed
    then show ?thesis
      unfolding st ne by (simp add: filter_empty_conv)
  qed
  show ?thesis
    apply (rule exI [of _ w'], rule exI [of _ t], rule exI [of _ m])
    using c c0 c1 c2 c4 c5 c6 by blast
qed

theorem commit_transaction_status_witness:
  "(\<exists>w' t m. commit_transaction lib0 0 world0 = (Inr (), w') \<and>
      current_transaction w' = None \<and>
      fs w' [''proj'', ''.vibepruner'', ''transactions'', ''t1.json''] =
        Some (File (TransactionJson t) ''2024-06-01T12:00:00'' m) \<and>
      tx_status t = ''partial_failure'' \<and> failed_operations t = Some 1) \<and>
   (\<exists>w' t m. commit_transaction lib0 0 world2 = (Inr (), w') \<and>
      current_transaction w' = None \<and>
      fs w' [''proj'', ''.vibepruner'', ''transactions'', ''t1.json''] =
        Some (File (TransactionJson t) ''2024-06-01T12:00:00'' m) \<and>
      tx_status t = ''committed'')"
proof -
  have p: "CHR ''/'' \<notin> set (tx_id tx0)" by (simp add: tx0_sel)
  have a0: "is_dir (fs world0) (work_dir world0)"
    "\<not> is_file (fs world0) (work_dir world0 @ [''transactions''])"
    "\<not> is_dir (fs world0) (work_dir world0 @ [''transactions'', tx_id tx0 @ ''.json''])"
    by (simp_all add: world0_sel tx0_sel fs0_def is_dir_def is_file_def)
  have a2: "is_dir (fs world2) (work_dir world2)"
    "\<not> is_file (fs world2) (work_dir world2 @ [''transactions''])"
    "\<not> is_dir (fs world2) (work_dir world2 @ [''transactions'', tx_id tx0 @ ''.json''])"
    by (simp_all add: world2_sel tx0_sel fs1_def fs0_def is_dir_def is_file_def)
  have s0: "status (heap world0 0) = ''pending''" by (simp add: world0_sel rec0_sel)
  have s2: "status (heap world2 0) = ''success''" by (simp add: world2_sel rec0_sel)
  have i: "isoformat lib0 0 = ''2024-06-01T12:00:00''" by (simp add: lib0_sel)
  from commit_transaction_status [OF world0_sel(7) a0 p, of lib0 0]
  have A: "\<exists>w' t m. commit_transaction lib0 0 world0 = (Inr (), w') \<and>
      current_transaction w' = None \<and>
      fs w' [''proj'', ''.vibepruner'', ''transactions'', ''t1.json''] =
        Some (File (TransactionJson t) ''2024-06-01T12:00:00'' m) \<and>
      tx_status t = ''partial_failure'' \<and> failed_operations t = Some 1"
    by (simp add: world0_sel(5) tx0_sel s0 i) blast
  from commit_transaction_status [OF world2_sel(7) a2 p, of lib0 0]
  have B: "\<exists>w' t m. commit_transaction lib0 0 world2 = (Inr (), w') \<and>
      current_transaction w' = None \<and>
      fs w' [''proj'', ''.vibepruner'', ''transactions'', ''t1.json''] =
        Some (File (TransactionJson t) ''2024-06-01T12:00:00'' m) \<and>
      tx_status t = ''committed''"
    by (simp add: world2_sel(5) tx0_sel s2 i) blast
  from A B show ?thesis by blast
qed

section \<open>Starting a session under a lock\<close>

lemma sm0_sel:
  "sm_fs sm0 = fs0([''proj'', ''.vibepruner'', ''session.lock''] \<mapsto>
                   File (LockJson \<lparr>lock_session_id = ''20240601_115950_aaaaaaaa'',
                                   lock_timestamp = ''2024-06-01T11:59:50'', pid = 4242\<rparr>)
                        ''2024-06-01T11:59:50'' 420)"
  "sm_logs sm0 = []" "sm_work_dir sm0 = [''proj'', ''.vibepruner'']" "sm_session sm0 = None"
  "is_active sm0 = False" "process_id sm0 = 777"
  by (simp_all add: sm0_def)

lemma check_session_lock_sm0:
  "check_session_lock lib0 10000000 sm0 = (True, sm0)"
  by (simp add: check_session_lock_def session_lock_file_def sm0_sel lib0_sel
                path_exists_def is_dir_def)

lemma sm_logger_sel [simp]:
  "sm_fs (sm_logger lv msg xs s) = sm_fs s"
  "sm_work_dir (sm_logger lv msg xs s) = sm_work_dir s"
  "sm_session (sm_logger lv msg xs s) = sm_session s"
  "process_id (sm_logger lv msg xs s) = process_id s"
  "sm_logs (sm_logger lv msg xs s) = sm_logs s @ [Log lv msg xs]"
  by (simp_all add: sm_logger_def)

text \<open>
  The live lock of the claim. The lock is ten seconds old, well inside the 300
  seconds: \<open>_check_session_lock\<close> reports it, and \<open>start_session\<close>, called with no
  session to resume, does not fail: it returns a new session and writes its own lock
  over the other instance's.
\<close>

theorem start_session_live_lock_counterexample:
  "fst (check_session_lock lib0 10000000 sm0) = True \<and>
   fst (start_session lib0 10000000 ''bbbbbbbb'' ''/proj'' None sm0) =
     Inr (create_new_session lib0 10000000 ''bbbbbbbb'' ''/proj'') \<and>
   sm_fs (snd (start_session lib0 10000000 ''bbbbbbbb'' ''/proj'' None sm0))
      [''proj'', ''.vibepruner'', ''session.lock''] =
     Some (File (LockJson \<lparr>lock_session_id = ''20240601_120000_bbbbbbbb'',
                           lock_timestamp = ''2024-06-01T12:00:00'', pid = 777\<rparr>)
                ''2024-06-01T12:00:00'' 420)"
proof -
  define s1 where "s1 = sm_logger WARNING ''Another session appears to be active'' [] sm0"
  have s1: "sm_fs s1 = sm_fs sm0" "sm_work_dir s1 = sm_work_dir sm0" "process_id s1 = 777"
    by (simp_all add: s1_def sm0_sel)
  have ab: "check_abandoned_session s1 = (None, s1)"
    by (simp add: check_abandoned_session_def session_file_def s1 sm0_sel path_exists_def fs0_def)
  define ss where "ss = create_new_session lib0 10000000 ''bbbbbbbb'' ''/proj''"
  have id: "s_id ss = ''20240601_120000_bbbbbbbb''"
    by (simp add: ss_def create_new_session_def lib0_sel)
  define f6 where "f6 = (sm_fs sm0)([''proj'', ''.vibepruner'', ''session.lock''] \<mapsto>
       File (LockJson \<lparr>lock_session_id = ''20240601_120000_bbbbbbbb'',
                           lock_timestamp = ''2024-06-01T12:00:00'', pid = 777\<rparr>)
                ''2024-06-01T12:00:00'' 420)"
  have lk: "create_session_lock lib0 10000000 (s1\<lparr>sm_session := Some ss\<rparr>) =
              (Inr (), s1\<lparr>sm_session := Some ss, sm_fs := f6\<rparr>)"
    by (simp add: create_session_lock_def session_lock_file_def write_file_def open_w_def
        put_content_def s1 sm0_sel id lib0_sel f6_def is_dir_def path_exists_def parent_def fs0_def)
  have sv: "sm_fs (save_session lib0 10000000 (s1\<lparr>sm_session := Some ss, sm_fs := f6\<rparr>))
              [''proj'', ''.vibepruner'', ''session.lock''] =
            f6 [''proj'', ''.vibepruner'', ''session.lock'']"
    by (simp add: save_session_def write_file_def open_w_def put_content_def replace_file_def
        session_file_def s1 sm0_sel f6_def is_dir_def path_exists_def parent_def fs0_def Let_def)
  have st: "start_session lib0 10000000 ''bbbbbbbb'' ''/proj'' None sm0 =
     (Inr ss, sm_logger INFO ''Session started'' [ArgStr (s_id ss)]
                ((save_session lib0 10000000 (s1\<lparr>sm_session := Some ss, sm_fs := f6\<rparr>))
                   \<lparr>checkpoint_thread := True, is_active := True\<rparr>))"
    unfolding start_session_def check_session_lock_sm0
    by (simp add: Let_def prompt_takeover_def truthy_str_def s1_def [symmetric] ab
                  ss_def [symmetric] lk)
  show ?thesis
    using sv by (simp add: st check_session_lock_sm0 ss_def f6_def)
qed


lemma write_file_no_runtime: "write_file f p c t \<noteq> Inl RuntimeError"
  by (simp add: write_file_def open_w_def split: sum.splits)

lemma read_session_no_runtime: "read_session f p \<noteq> Inl RuntimeError"
  by (simp add: read_session_def split: option.splits node.splits fcontent.splits)

lemma load_session_no_runtime: "load_session s sid \<noteq> Inl RuntimeError"
  using read_session_no_runtime
  by (auto simp: load_session_def Let_def split: sum.splits)

lemma create_session_lock_no_runtime: "fst (create_session_lock L now s) \<noteq> Inl RuntimeError"
  using write_file_no_runtime
  by (auto simp: create_session_lock_def split: option.splits sum.splits)

lemma start_session_never_lock_conflict:
  "fst (start_session L now urandom proj resume_session_id s) \<noteq> Inl RuntimeError"
proof -
  have "fst (case r of
               (Inl e, s5) \<Rightarrow> (Inl e, s5)
             | (Inr ss, s5) \<Rightarrow>
                 (case create_session_lock L now (s5\<lparr>sm_session := Some ss\<rparr>) of
                    (Inl e, s6) \<Rightarrow> (Inl e, s6)
                  | (Inr u, s6) \<Rightarrow> (Inr ss, g ss s6))) \<noteq> Inl RuntimeError"
    if "fst r \<noteq> Inl RuntimeError" for r :: "(error + session) \<times> session_manager" and g
  proof (cases r)
    case (Pair x s5)
    show ?thesis
    proof (cases x)
      case (Inl e)
      with Pair that show ?thesis by simp
    next
      case (Inr ss)
      obtain y s6 where c: "create_session_lock L now (s5\<lparr>sm_session := Some ss\<rparr>) = (y, s6)"
        by fastforce
      with create_session_lock_no_runtime [of L now "s5\<lparr>sm_session := Some ss\<rparr>"]
      show ?thesis using Pair Inr by (cases y) auto
    qed
  qed
  note tail = this
  show ?thesis
    unfolding start_session_def Let_def
    apply (simp only: prompt_takeover_def prompt_resume_def simp_thms if_False if_True)
    apply (rule tail)
    using load_session_no_runtime
    apply (auto split: option.splits sum.splits prod.splits)
    done
qed

lemma check_session_lock_file:
  assumes "sm_fs s (session_lock_file s) = Some (File (LockJson lk) t m)"
      and "fromisoformat L (lock_timestamp lk) = Some lock_time"
  shows "check_session_lock L now s =
           (if now - lock_time > 300 * 1000000
            then (False, sm_logger WARNING ''Found stale session lock'' [] s)
            else (True, s))"
  using assms
  by (simp add: check_session_lock_def path_exists_def is_dir_def session_lock_file_def)

lemma check_abandoned_session_frame:
  assumes "check_abandoned_session s = (r, s')"
  shows "sm_fs s' = sm_fs s \<and> sm_work_dir s' = sm_work_dir s \<and> process_id s' = process_id s \<and>
         prefix (sm_logs s) (sm_logs s')"
  using assms
  by (auto simp: check_abandoned_session_def split: if_splits sum.splits)

lemma save_session_frame:
  "sm_work_dir (save_session L now s) = sm_work_dir s"
  "sm_session (save_session L now s) = sm_session s"
  "prefix (sm_logs s) (sm_logs (save_session L now s))"
  "p \<noteq> session_file s \<Longrightarrow> p \<noteq> sm_work_dir s @ [''current_session.tmp''] \<Longrightarrow>
     sm_fs (save_session L now s) p = sm_fs s p"
  by (auto simp: save_session_def Let_def replace_file_def
           split: option.splits sum.splits node.splits if_splits dest!: write_file_Inr)

text \<open>
  C5. Let the lock file hold a lock whose time stamp reads as an instant, in a work
  directory that exists. The lock counts as live exactly when it is at most 300
  seconds old. \<open>start_session\<close> with no session to resume succeeds either way: after
  the warning of a live lock (\<open>Another session appears to be active\<close>) or of a stale one
  (\<open>Found stale session lock\<close>) it returns the session it made current and active,
  and the lock file then holds this session's lock. Whatever the arguments, the call
  never ends in the error of a lock conflict.
\<close>

theorem start_session_takes_lock:
  assumes "sm_fs s (session_lock_file s) = Some (File (LockJson lk) t m)"
      and "fromisoformat L (lock_timestamp lk) = Some lock_time"
      and "is_dir (sm_fs s) (sm_work_dir s)"
  shows "fst (check_session_lock L now s) = (now - lock_time \<le> 300 * 1000000) \<and>
     (\<exists>ss s' m'. start_session L now urandom proj None s = (Inr ss, s') \<and>
        sm_session s' = Some ss \<and> is_active s' \<and>
        sm_fs s' (session_lock_file s) =
          Some (File (LockJson \<lparr>lock_session_id = s_id ss, lock_timestamp = isoformat L now,
                                pid = process_id s\<rparr>) (isoformat L now) m') \<and>
        prefix (sm_logs s @ [Log WARNING (if now - lock_time \<le> 300 * 1000000
                                          then ''Another session appears to be active''
                                          else ''Found stale session lock'') []])
               (sm_logs s')) \<and>
     fst (start_session L now urandom proj resume_session_id s) \<noteq> Inl RuntimeError"
proof -
  let ?live = "now - lock_time \<le> 300 * 1000000"
  note chk = check_session_lock_file [OF assms(1,2), of now]
  define s1 where "s1 = sm_logger WARNING (if ?live then ''Another session appears to be active''
                                           else ''Found stale session lock'') [] s"
  have s1: "sm_fs s1 = sm_fs s" "sm_work_dir s1 = sm_work_dir s" "process_id s1 = process_id s"
    "sm_logs s1 = sm_logs s @ [Log WARNING (if ?live then ''Another session appears to be active''
                                           else ''Found stale session lock'') []]"
    by (simp_all add: s1_def)
  obtain r s2 where ab: "check_abandoned_session s1 = (r, s2)" by fastforce
  note fr2 = check_abandoned_session_frame [OF ab]
  define ss where "ss = (case r of None \<Rightarrow> create_new_session L now urandom proj
                         | Some a \<Rightarrow> a\<lparr>resumed_at := Some (isoformat L now)\<rparr>)"
  define s5 where "s5 = (case r of None \<Rightarrow> s2
                         | Some a \<Rightarrow> sm_logger INFO ''Found abandoned session'' [ArgStr (s_id a)] s2)"
  have s5: "sm_fs s5 = sm_fs s" "sm_work_dir s5 = sm_work_dir s" "process_id s5 = process_id s"
    using fr2 by (simp_all add: s5_def s1 split: option.splits)
  have l5: "prefix (sm_logs s1) (sm_logs s5)"
    using fr2 by (auto simp: s5_def split: option.splits intro: prefix_order.trans)
  let ?lock = "LockJson \<lparr>lock_session_id = s_id ss, lock_timestamp = isoformat L now,
                          pid = process_id s\<rparr>"
  have nd: "\<not> is_dir (sm_fs s) (session_lock_file s)"
    using assms(1) by (simp add: is_dir_def session_lock_file_def)
  have pd: "is_dir (sm_fs s) (parent (session_lock_file s))"
    using assms(3) by (simp add: parent_def session_lock_file_def)
  from write_file_ok [OF nd pd, of ?lock "isoformat L now"] obtain m' where
    wf: "write_file (sm_fs s) (session_lock_file s) ?lock (isoformat L now) =
           Inr ((sm_fs s)(session_lock_file s \<mapsto> File ?lock (isoformat L now) m'))"
    by blast
  define s6 where "s6 = s5\<lparr>sm_session := Some ss,
                    sm_fs := (sm_fs s)(session_lock_file s \<mapsto> File ?lock (isoformat L now) m')\<rparr>"
  have lk: "create_session_lock L now (s5\<lparr>sm_session := Some ss\<rparr>) = (Inr (), s6)"
    using wf by (simp add: create_session_lock_def session_lock_file_def s5 s6_def)
  define s' where "s' = sm_logger INFO ''Session started'' [ArgStr (s_id ss)]
                ((save_session L now s6)\<lparr>checkpoint_thread := True, is_active := True\<rparr>)"
  have st: "start_session L now urandom proj None s = (Inr ss, s')"
  proof (cases ?live)
    case True
    then have c: "check_session_lock L now s = (True, s)" using chk by simp
    have e: "s1 = sm_logger WARNING ''Another session appears to be active'' [] s"
      using True by (simp add: s1_def)
    show ?thesis
    proof (cases r)
      case None
      then have v: "ss = create_new_session L now urandom proj" "s5 = s2"
        by (simp_all add: ss_def s5_def)
      show ?thesis
        unfolding start_session_def c
        by (simp add: Let_def prompt_takeover_def prompt_resume_def truthy_str_def
                      e [symmetric] ab None lk [unfolded v] s'_def [unfolded v] v)
    next
      case (Some a)
      then have v: "ss = a\<lparr>resumed_at := Some (isoformat L now)\<rparr>"
        "s5 = sm_logger INFO ''Found abandoned session'' [ArgStr (s_id a)] s2"
        by (simp_all add: ss_def s5_def)
      show ?thesis
        unfolding start_session_def c
        by (simp add: Let_def prompt_takeover_def prompt_resume_def truthy_str_def
                      e [symmetric] ab Some lk [unfolded v] s'_def [unfolded v] v)
    qed
  next
    case False
    then have c: "check_session_lock L now s =
                    (False, sm_logger WARNING ''Found stale session lock'' [] s)"
      using chk by simp
    have e: "s1 = sm_logger WARNING ''Found stale session lock'' [] s"
      using False by (simp add: s1_def)
    show ?thesis
    proof (cases r)
      case None
      then have v: "ss = create_new_session L now urandom proj" "s5 = s2"
        by (simp_all add: ss_def s5_def)
      show ?thesis
        unfolding start_session_def c
        by (simp add: Let_def prompt_takeover_def prompt_resume_def truthy_str_def
                      e [symmetric] ab None lk [unfolded v] s'_def [unfolded v] v)
    next
      case (Some a)
      then have v: "ss = a\<lparr>resumed_at := Some (isoformat L now)\<rparr>"
        "s5 = sm_logger INFO ''Found abandoned session'' [ArgStr (s_id a)] s2"
        by (simp_all add: ss_def s5_def)
      show ?thesis
        unfolding start_session_def c
        by (simp add: Let_def prompt_takeover_def prompt_resume_def truthy_str_def
                      e [symmetric] ab Some lk [unfolded v] s'_def [unfolded v] v)
    qed
  qed
  have w6: "sm_work_dir s6 = sm_work_dir s" "sm_session s6 = Some ss"
    by (simp_all add: s6_def s5)
  have ne: "session_lock_file s \<noteq> session_file s6"
           "session_lock_file s \<noteq> sm_work_dir s6 @ [''current_session.tmp'']"
    by (simp_all add: session_lock_file_def session_file_def w6)
  have c1: "sm_session s' = Some ss" "is_active s'"
    by (simp_all add: s'_def save_session_frame w6 sm_logger_def)
  have c2: "sm_fs s' (session_lock_file s) = Some (File ?lock (isoformat L now) m')"
    using save_session_frame(4) [OF ne, of L now]
    by (simp add: s'_def sm_logger_def s6_def)
  have "prefix (sm_logs s1) (sm_logs s6)" using l5 by (simp add: s6_def)
  then have "prefix (sm_logs s1) (sm_logs (save_session L now s6))"
    using save_session_frame(3) [of s6 L now] by (rule prefix_order.trans)
  then have c3: "prefix (sm_logs s1) (sm_logs s')"
    by (auto simp: s'_def sm_logger_def prefix_def)
  have c0: "fst (check_session_lock L now s) = ?live"
    using chk by simp
  have c4: "fst (start_session L now urandom proj resume_session_id s) \<noteq> Inl RuntimeError"
    by (rule start_session_never_lock_conflict)
  show ?thesis
    using c0 st c1 c2 c3 c4 unfolding s1(4) by blast
qed

theorem start_session_takes_lock_witness:
  "fst (check_session_lock lib0 10000000 sm0) \<and>
   (\<exists>ss s'. start_session lib0 10000000 ''bbbbbbbb'' ''/proj'' None sm0 = (Inr ss, s') \<and>
      sm_session s' = Some ss \<and>
      prefix [Log WARNING ''Another session appears to be active'' []] (sm_logs s')) \<and>
   \<not> fst (check_session_lock lib0 400000000 sm0) \<and>
   (\<exists>ss s'. start_session lib0 400000000 ''bbbbbbbb'' ''/proj'' None sm0 = (Inr ss, s') \<and>
      sm_session s' = Some ss \<and>
      prefix [Log WARNING ''Found stale session lock'' []] (sm_logs s'))"
proof -
  have a: "sm_fs sm0 (session_lock_file sm0) =
             Some (File (LockJson \<lparr>lock_session_id = ''20240601_115950_aaaaaaaa'',
                                   lock_timestamp = ''2024-06-01T11:59:50'', pid = 4242\<rparr>)
                        ''2024-06-01T11:59:50'' 420)"
    by (simp add: session_lock_file_def sm0_sel)
  have b: "fromisoformat lib0 (lock_timestamp \<lparr>lock_session_id = ''20240601_115950_aaaaaaaa'',
                                   lock_timestamp = ''2024-06-01T11:59:50'', pid = 4242\<rparr>) = Some 0"
    by (simp add: lib0_sel)
  have c: "is_dir (sm_fs sm0) (sm_work_dir sm0)"
    by (simp add: sm0_sel fs0_def is_dir_def)
  note T = start_session_takes_lock [OF a b c]
  have A: "fst (check_session_lock lib0 10000000 sm0)"
    using T [of 10000000 "''bbbbbbbb''" "''/proj''" None, THEN conjunct1] by simp
  have B: "\<exists>ss s'. start_session lib0 10000000 ''bbbbbbbb'' ''/proj'' None sm0 = (Inr ss, s') \<and>
      sm_session s' = Some ss \<and>
      prefix [Log WARNING ''Another session appears to be active'' []] (sm_logs s')"
    using T [of 10000000 "''bbbbbbbb''" "''/proj''" None, THEN conjunct2, THEN conjunct1]
    by (simp add: sm0_sel) blast
  have C: "\<not> fst (check_session_lock lib0 400000000 sm0)"
    using T [of 400000000 "''bbbbbbbb''" "''/proj''" None, THEN conjunct1] by simp
  have D: "\<exists>ss s'. start_session lib0 400000000 ''bbbbbbbb'' ''/proj'' None sm0 = (Inr ss, s') \<and>
      sm_session s' = Some ss \<and>
      prefix [Log WARNING ''Found stale session lock'' []] (sm_logs s')"
    using T [of 400000000 "''bbbbbbbb''" "''/proj''" None, THEN conjunct2, THEN conjunct1]
    by (simp add: sm0_sel) blast
  from A B C D show ?thesis by blast
qed

section \<open>Starting a transaction\<close>

text \<open>
  C6. Whatever the active slot held, \<open>start_transaction\<close> returns the new identifier
  and the slot then holds the new, empty, in-progress transaction, so one transaction
  at most is active. A transaction that was active before is dropped as it is: no
  record and no entry of the master log changes, and no file other than
  \<open>transaction_log.json\<close> is written or removed, so nothing is archived. The empty
  transaction is on disk at once when \<open>transaction_log.json\<close> can be written (the
  work directory is a directory and the log's path is not one).
\<close>

theorem start_transaction_replaces:
  assumes "start_transaction L now d w = (tid, w')"
  shows "tid = strftime L now @ ''_'' @ take 8 (md5_hex L d) \<and>
     current_transaction w' =
       Some \<lparr>tx_id = tid, description = d, start_time = isoformat L now,
             operations = [], tx_status = ''in_progress'', end_time = None,
             failed_operations = None, tx_rollback_time = None\<rparr> \<and>
     heap w' = heap w \<and> migrations w' = migrations w \<and>
     (\<forall>p. p \<noteq> transaction_log_path w \<longrightarrow> fs w' p = fs w p) \<and>
     (\<not> is_dir (fs w) (transaction_log_path w) \<and> is_dir (fs w) (work_dir w) \<longrightarrow>
        (\<exists>m. fs w' (transaction_log_path w) =
           Some (File (TransactionJson
                   \<lparr>tx_id = tid, description = d, start_time = isoformat L now,
                    operations = [], tx_status = ''in_progress'', end_time = None,
                    failed_operations = None, tx_rollback_time = None\<rparr>)
                 (isoformat L now) m)))"
proof -
  let ?tx = "\<lparr>tx_id = strftime L now @ ''_'' @ take 8 (md5_hex L d), description = d,
               start_time = isoformat L now, operations = ([]::nat list),
               tx_status = ''in_progress'', end_time = None,
               failed_operations = None, tx_rollback_time = None\<rparr>"
  let ?w0 = "w\<lparr>current_transaction := Some ?tx\<rparr>"
  from assms have tid: "tid = strftime L now @ ''_'' @ take 8 (md5_hex L d)"
    and w': "w' = logger INFO ''Started transaction'' [ArgStr tid, ArgStr d]
                    (save_transaction L now ?w0)"
    by (auto simp: start_transaction_def Let_def)
  have cur: "current_transaction w' = Some ?tx"
    by (simp add: w')
  have persisted: "\<exists>m. fs w' (transaction_log_path w) =
           Some (File (TransactionJson (dump_transaction ?w0 ?tx)) (isoformat L now) m)"
    if "\<not> is_dir (fs w) (transaction_log_path w)" "is_dir (fs w) (work_dir w)"
  proof -
    have "is_dir (fs ?w0) (parent (transaction_log_path ?w0))"
      using that by (simp add: transaction_log_path_def parent_def)
    moreover have "\<not> is_dir (fs ?w0) (transaction_log_path ?w0)"
      using that by (simp add: transaction_log_path_def)
    ultimately obtain m where
      "write_file (fs ?w0) (transaction_log_path ?w0)
         (TransactionJson (dump_transaction ?w0 ?tx)) (isoformat L now)
       = Inr ((fs ?w0)(transaction_log_path ?w0 \<mapsto>
                File (TransactionJson (dump_transaction ?w0 ?tx)) (isoformat L now) m))"
      using write_file_ok by blast
    then show ?thesis
      by (auto simp: w' save_transaction_def transaction_log_path_def)
  qed
  have same: "heap w' = heap w" "migrations w' = migrations w"
    by (simp_all add: w')
  have others: "fs w' p = fs w p" if "p \<noteq> transaction_log_path w" for p
    using that save_transaction_fs [of p ?w0 L now]
    by (simp add: w' transaction_log_path_def)
  show ?thesis
    using cur persisted same others by (auto simp: tid dump_transaction_def)
qed

theorem start_transaction_replaces_witness:
  "current_transaction world0 = Some tx0 \<and>
   current_transaction (snd (start_transaction lib0 0 ''second'' world0)) =
       Some \<lparr>tx_id = ''20240601_120000_01234567'', description = ''second'',
             start_time = ''2024-06-01T12:00:00'',
             operations = [], tx_status = ''in_progress'', end_time = None,
             failed_operations = None, tx_rollback_time = None\<rparr> \<and>
   fs (snd (start_transaction lib0 0 ''second'' world0))
      [''proj'', ''.vibepruner'', ''transactions'', ''t1.json''] = None \<and>
   (\<exists>m. fs (snd (start_transaction lib0 0 ''second'' world0))
          [''proj'', ''.vibepruner'', ''transaction_log.json''] =
        Some (File (TransactionJson
                   \<lparr>tx_id = ''20240601_120000_01234567'', description = ''second'',
                    start_time = ''2024-06-01T12:00:00'',
                    operations = [], tx_status = ''in_progress'', end_time = None,
                    failed_operations = None, tx_rollback_time = None\<rparr>)
                 ''2024-06-01T12:00:00'' m))"
proof -
  obtain tid w' where eq: "start_transaction lib0 0 ''second'' world0 = (tid, w')"
    by fastforce
  have c: "\<not> is_dir (fs world0) (transaction_log_path world0)"
          "is_dir (fs world0) (work_dir world0)"
    by (simp_all add: world0_def fs0_def transaction_log_path_def is_dir_def)
  have t: "transaction_log_path world0 = [''proj'', ''.vibepruner'', ''transaction_log.json'']"
    by (simp add: world0_def transaction_log_path_def)
  have l: "strftime lib0 0 = ''20240601_120000''" "isoformat lib0 0 = ''2024-06-01T12:00:00''"
          "md5_hex lib0 ''second'' = ''0123456789abcdef''"
          "current_transaction world0 = Some tx0"
    by (simp_all add: lib0_def world0_def)
  have n: "fs world0 [''proj'', ''.vibepruner'', ''transactions'', ''t1.json''] = None"
    by (simp add: world0_sel fs0_def)
  from start_transaction_replaces [OF eq] c t n show ?thesis
    by (auto simp: eq l)
qed

text \<open>
  With a transaction in progress, a second \<open>start_transaction\<close> does not fail: it
  returns an identifier and the new transaction takes the active slot.
\<close>

theorem start_transaction_in_progress_counterexample:
  "current_transaction world0 = Some tx0 \<and> tx_status tx0 = ''in_progress'' \<and>
   fst (start_transaction lib0 0 ''second'' world0) = ''20240601_120000_01234567'' \<and>
   map_option tx_id (current_transaction (snd (start_transaction lib0 0 ''second'' world0)))
     = Some ''20240601_120000_01234567''"
  by (simp add: start_transaction_def lib0_def world0_def tx0_def Let_def)


section \<open>Failures of the saves\<close>

lemma world7_sel:
  "fs world7 = fs0([''proj'', ''.vibepruner'', ''transaction_log.json''] \<mapsto> Dir)"
  "heap world7 = (\<lambda>a. rec0)" "next_addr world7 = 1" "logs world7 = []"
  "work_dir world7 = [''proj'', ''.vibepruner'']" "migrations world7 = [0]"
  "current_transaction world7 = Some tx0"
  by (simp_all add: world7_def world0_sel)

lemma write_file_on_dir: "is_dir f p \<Longrightarrow> write_file f p c t = Inl IsADirectoryError"
  by (simp add: write_file_def open_w_def)

text \<open>
  C7, the transaction log. With a directory standing where \<open>transaction_log.json\<close>
  should be written, opening the file fails; \<open>save_transaction\<close> logs the failure and
  returns as if nothing had happened, and \<open>start_transaction\<close> built on it hands out an
  identifier while nothing reached the disk.
\<close>

theorem save_transaction_swallows_failure:
  "write_file (fs world7) (transaction_log_path world7)
     (TransactionJson (dump_transaction world7 tx0)) (isoformat lib0 0) = Inl IsADirectoryError \<and>
   save_transaction lib0 0 world7 =
     world7\<lparr>logs := [Log ERROR ''Failed to save transaction'' [ArgErr IsADirectoryError]]\<rparr> \<and>
   fst (start_transaction lib0 0 ''second'' world7) = ''20240601_120000_01234567'' \<and>
   fs (snd (start_transaction lib0 0 ''second'' world7)) = fs world7"
proof -
  have wf: "write_file (fs0([''proj'', ''.vibepruner'', ''transaction_log.json''] \<mapsto> Dir))
              [''proj'', ''.vibepruner'', ''transaction_log.json''] c t = Inl IsADirectoryError"
    for c t
    by (rule write_file_on_dir) (simp add: is_dir_def)
  have a: "save_transaction lib0 0 world7 =
     world7\<lparr>logs := [Log ERROR ''Failed to save transaction'' [ArgErr IsADirectoryError]]\<rparr>"
    by (simp add: save_transaction_def transaction_log_path_def wf world7_sel logger_def)
  have b: "fs (snd (start_transaction lib0 0 ''second'' world7)) = fs world7"
    by (simp add: start_transaction_def save_transaction_def transaction_log_path_def
                  wf world7_sel Let_def)
  have c: "fst (start_transaction lib0 0 ''second'' world7) = ''20240601_120000_01234567''"
    by (simp add: start_transaction_def lib0_sel Let_def)
  show ?thesis using wf a b c by (simp add: transaction_log_path_def world7_sel)
qed

text \<open>
  What does propagate: a failure of \<open>save_migrations\<close> is the result of
  \<open>save_migrations\<close>, of \<open>track_migration\<close> and of \<open>complete_migration\<close>.
\<close>

lemma save_migrations_raises:
  assumes "is_dir (fs w) (work_dir w @ [''migration_log.tmp'']) \<or> \<not> is_dir (fs w) (work_dir w)"
  shows "\<exists>e. fst (save_migrations L now w) = Inl e"
  using assms
  by (auto simp: save_migrations_def write_file_def open_w_def parent_def Let_def
                 is_dir_def path_exists_def)


section \<open>The states of a save\<close>

lemma world8_sel:
  "fs world8 = fs0([''proj'', ''.vibepruner'', ''transaction_log.json''] \<mapsto>
                 File (TransactionJson (dump_transaction world0 (tx0\<lparr>operations := []\<rparr>)))
                      ''2024-06-01T10:59:00'' 420)"
  "heap world8 = (\<lambda>a. rec0)" "work_dir world8 = [''proj'', ''.vibepruner'']"
  "migrations world8 = [0]" "current_transaction world8 = Some tx0"
  by (simp_all add: world8_def world0_sel)

text \<open>The states listed for a save end in the state the save returns.\<close>

lemma save_transaction_states_last:
  "fs (save_transaction L now w) = last (fs w # save_transaction_states L now w)"
  by (simp add: save_transaction_def save_transaction_states_def write_file_def logger_def
           split: option.splits sum.splits)

lemma save_migrations_states_last:
  "fs (snd (save_migrations L now w)) = last (fs w # save_migrations_states L now w)"
  by (simp add: save_migrations_def save_migrations_states_def write_file_def logger_def Let_def
           split: option.splits sum.splits)

text \<open>
  Through every state of \<open>_save_migrations\<close> the migration log holds its old content
  or, after the rename, the complete new one.
\<close>

lemma save_migrations_atomic:
  assumes "f \<in> set (save_migrations_states L now w)"
  shows "f (migration_log_path w) = fs w (migration_log_path w) \<or>
         (\<exists>m. f (migration_log_path w) =
                Some (File (MigrationsJson (map (heap w) (migrations w))) (isoformat L now) m))"
proof -
  have ne: "migration_log_path w \<noteq> work_dir w @ [''migration_log.tmp'']"
    by (simp add: migration_log_path_def)
  show ?thesis
    using assms ne
    by (auto simp: save_migrations_states_def open_w_def put_content_def replace_file_def Let_def
             split: sum.splits if_splits option.splits node.splits)
qed

text \<open>
  C8, the transaction log. \<open>_save_transaction\<close> opens \<open>transaction_log.json\<close> itself
  for writing: in the first state of the save the file on disk is empty, neither the
  transaction it held before nor the one being written.
\<close>

theorem save_transaction_not_atomic:
  "fs world8 (transaction_log_path world8) =
     Some (File (TransactionJson (dump_transaction world0 (tx0\<lparr>operations := []\<rparr>)))
                ''2024-06-01T10:59:00'' 420) \<and>
   hd (save_transaction_states lib0 0 world8) (transaction_log_path world8) =
     Some (File (Raw []) ''2024-06-01T12:00:00'' 420) \<and>
   last (save_transaction_states lib0 0 world8) (transaction_log_path world8) =
     Some (File (TransactionJson (dump_transaction world8 tx0)) ''2024-06-01T12:00:00'' 420) \<and>
   save_migrations_states lib0 0 world8 \<noteq> [] \<and>
   hd (save_migrations_states lib0 0 world8) (migration_log_path world8) =
     fs world8 (migration_log_path world8)"
  by (simp add: save_transaction_states_def save_migrations_states_def open_w_def
      put_content_def replace_file_def transaction_log_path_def migration_log_path_def
      is_dir_def path_exists_def parent_def world8_sel lib0_sel fs0_def Let_def)


section \<open>The checksum of an audit entry\<close>

















section \<open>Rolling back a transaction that is not there\<close>

lemma rollback_transaction_not_False:
  assumes "fst (rollback_transaction L now txid w) = Inr False"
  shows "truthy_str txid \<or> current_transaction w = None"
  using assms unfolding rollback_transaction_def
  by (auto simp: Let_def split: if_splits option.splits sum.splits prod.splits)

lemma rollback_transaction_active_heap:
  assumes "\<not> truthy_str txid" "current_transaction w = Some tx"
  shows "heap (snd (rollback_transaction L now txid w)) =
         heap (rollback_ops L now (rev (operations tx))
                 (logger INFO ''Rolling back transaction'' [ArgStr (tx_id tx)] w))"
proof -
  define w3 where "w3 = rollback_ops L now (rev (operations tx))
                 (logger INFO ''Rolling back transaction'' [ArgStr (tx_id tx)] w)"
  define w5 where "w5 = save_transaction L now
     (w3\<lparr>current_transaction := Some (tx\<lparr>tx_status := ''rolled_back'',
                        tx_rollback_time := Some (isoformat L now)\<rparr>)\<rparr>)"
  obtain r6 w6 where s: "save_migrations L now w5 = (r6, w6)" by fastforce
  from save_migrations_frame [OF s] have "heap w6 = heap w3" by (simp add: w5_def)
  moreover have "heap (snd (rollback_transaction L now txid w)) = heap w6"
    using assms s unfolding rollback_transaction_def w5_def w3_def
    by (cases r6) (simp_all add: Let_def)
  ultimately show ?thesis by (simp add: w3_def)
qed

text \<open>
  C10. \<open>rollback_transaction\<close> called with a non-empty identifier for which nothing
  exists at \<open>transactions/<id>.json\<close>, or with no identifier (or the empty one) while
  no transaction is active, returns \<open>False\<close> and changes nothing but the process log:
  no record, no log file and no file of the project is touched.
\<close>

theorem rollback_transaction_nothing:
  assumes "(\<exists>tid. txid = Some tid \<and> tid \<noteq> [] \<and> \<not> archive_exists w tid) \<or>
           ((txid = None \<or> txid = Some []) \<and> current_transaction w = None)"
  shows "rollback_transaction L now txid w =
           (Inr False, w\<lparr>logs := logs w @ [Log ERROR ''No transaction to rollback'' []]\<rparr>)"
proof -
  from assms consider
      (absent) tid where "txid = Some tid" "tid \<noteq> []" "\<not> archive_exists w tid"
    | (idle) "txid = None \<or> txid = Some []" "current_transaction w = None"
    by auto
  then show ?thesis
  proof cases
    case absent
    then have "load_transaction tid w = (Inr None, w)"
      by (auto simp: load_transaction_def archive_exists_def split: sum.splits)
    with absent show ?thesis
      by (simp add: rollback_transaction_def truthy_str_def logger_def)
  next
    case idle
    then show ?thesis
      by (auto simp: rollback_transaction_def truthy_str_def logger_def)
  qed
qed

theorem rollback_transaction_nothing_witness:
  "\<not> archive_exists world10 ''t9'' \<and>
   rollback_transaction lib0 0 (Some ''t9'') world10 =
     (Inr False, world10\<lparr>logs := logs world10 @ [Log ERROR ''No transaction to rollback'' []]\<rparr>) \<and>
   current_transaction (world10\<lparr>current_transaction := None\<rparr>) = None \<and>
   rollback_transaction lib0 0 None (world10\<lparr>current_transaction := None\<rparr>) =
     (Inr False, world10\<lparr>current_transaction := None,
                          logs := logs world10 @ [Log ERROR ''No transaction to rollback'' []]\<rparr>)"
proof -
  have j: "joinpath (fs world10) (work_dir world10 @ [''transactions'']) (''t9'' @ ''.json'') =
             Inr ((work_dir world10 @ [''transactions'']) @ [''t9'' @ ''.json''])"
    by (intro joinpath_plain) (simp_all add: world10_def world8_def world0_sel is_dir_def)
  have h: "\<not> archive_exists world10 ''t9''"
    unfolding archive_exists_def j
    by (simp add: world10_def world8_def world0_sel fs0_def path_exists_def)
  then have a: "(\<exists>tid. Some ''t9'' = Some tid \<and> tid \<noteq> [] \<and> \<not> archive_exists world10 tid) \<or>
           ((Some ''t9'' = None \<or> Some ''t9'' = Some []) \<and> current_transaction world10 = None)"
    by simp
  have b: "(\<exists>tid. None = Some tid \<and> tid \<noteq> [] \<and>
              \<not> archive_exists (world10\<lparr>current_transaction := None\<rparr>) tid) \<or>
           ((None = None \<or> None = Some []) \<and>
            current_transaction (world10\<lparr>current_transaction := None\<rparr>) = None)"
    by simp
  from rollback_transaction_nothing [OF a, of lib0 0]
       rollback_transaction_nothing [OF b, of lib0 0] h
  show ?thesis by simp
qed

text \<open>
  The empty identifier has nothing at its archive path, yet with a transaction active
  the call rolls that one back: it does not return \<open>False\<close>, and the record of the
  transaction is now rolled back.
\<close>

theorem rollback_transaction_empty_id_counterexample:
  "\<not> archive_exists world2 [] \<and>
   status (heap world2 0) = ''success'' \<and>
   fst (rollback_transaction lib0 0 (Some []) world2) \<noteq> Inr False \<and>
   status (heap (snd (rollback_transaction lib0 0 (Some []) world2)) 0) = ''rolled_back''"
proof -
  have a: "\<not> archive_exists world2 []"
    by (simp add: archive_exists_def joinpath_def world2_sel fs1_def fs0_def path_exists_def
                  is_dir_def)
  have t: "\<not> truthy_str (Some [])" by (simp add: truthy_str_def)
  have c: "current_transaction world2 = Some tx0" by (simp add: world2_sel)
  have b: "fst (rollback_transaction lib0 0 (Some []) world2) \<noteq> Inr False"
    using rollback_transaction_not_False [of lib0 0 "Some []" world2] t c by auto
  have r: "fst (reverse_operation (rec0\<lparr>status := ''success'', dest_hash := Some ''h:x''\<rparr>)
             (logger INFO ''Rolling back transaction'' [ArgStr ''t1''] world2)) = Inr ()"
    by (simp add: reverse_operation_def mkdir_parents_def shutil_move_def chmod_def
        basename_def is_dir_def path_exists_def parent_def truthy_nat_def
        world2_sel rec0_sel fs1_def fs0_def Let_def)
  obtain w1 where r': "reverse_operation (rec0\<lparr>status := ''success'', dest_hash := Some ''h:x''\<rparr>)
             (logger INFO ''Rolling back transaction'' [ArgStr ''t1''] world2) = (Inr (), w1)"
    using r by (metis prod.collapse)
  have d: "status (heap (rollback_ops lib0 0 (rev (operations tx0))
                 (logger INFO ''Rolling back transaction'' [ArgStr (tx_id tx0)] world2)) 0)
           = ''rolled_back''"
    by (simp add: tx0_sel world2_sel rec0_sel r')
  show ?thesis
    using a b d rollback_transaction_active_heap [OF t c, of lib0 0]
    by (simp add: world2_sel rec0_sel)
qed

text \<open>
  An identifier can leave the directory of the archive: with the live transaction log
  on disk, \<open>../transaction_log\<close> names it, and the call loads it, rolls it back and
  returns \<open>True\<close>.
\<close>

lemma rollback_transaction_outside_archive:
  "archive_exists world10 ''../transaction_log'' \<and>
   fst (rollback_transaction lib0 0 (Some ''../transaction_log'') world10) = Inr True"
  by (simp add: archive_exists_def rollback_transaction_def load_transaction_def joinpath_def
      truthy_str_def save_transaction_def save_migrations_def write_file_def open_w_def
      put_content_def replace_file_def transaction_log_path_def migration_log_path_def
      logger_def is_dir_def path_exists_def parent_def dump_transaction_def
      world10_def world8_def world0_sel tx0_def fs0_def lib0_sel Let_def)

end
